theory Spec2Isabelle
  imports Complex_Main "HOL-Library.Monad_Syntax"
begin

section \<open>The recommendation core of the book recommendation system\<close>

text \<open>
  A shallow embedding of \<^verbatim>\<open>models/book.py\<close>, \<^verbatim>\<open>models/user.py\<close>,
  \<^verbatim>\<open>services/ml_recommender.py\<close> and \<^verbatim>\<open>services/recommendation_engine.py\<close>.

  Conventions of the embedding:
  \<^item> a Python \<^verbatim>\<open>float\<close> is a \<^typ>\<open>real\<close>: arithmetic is exact, so every statement
    about a score holds of the source up to floating-point rounding;
  \<^item> a Python \<^verbatim>\<open>int\<close> is an \<^typ>\<open>int\<close>, \<^verbatim>\<open>Optional[t]\<close> is \<^typ>\<open>'a option\<close>,
    \<^verbatim>\<open>str\<close> is \<^typ>\<open>string\<close> (ASCII text);
  \<^item> Python truthiness (\<^verbatim>\<open>if x:\<close>, \<^verbatim>\<open>x or y\<close>, \<^verbatim>\<open>x and y\<close>) is written out: \<^verbatim>\<open>None\<close>,
    \<^verbatim>\<open>0\<close>, \<^verbatim>\<open>0.0\<close>, the empty string and the empty list are false;
  \<^item> a reason string is kept as its f-string template together with the interpolated
    values (type \<open>reason\<close>); the rendering of floats into text is not modelled;
  \<^item> an object mutated in place is returned updated (state passing); the one place
    where a list is shared between caller and callee, the trending operation, runs on an
    explicit store of list objects;
  \<^item> the operations are defined twice: first as functions of their results, then with
    the exceptions that Python can raise in them and the handlers that catch them; the
    two are proved to agree on every input.
\<close>

subsection \<open>Python truthiness, slicing and sorting\<close>

definition truthy_real :: "real option \<Rightarrow> bool" where
  "truthy_real x = (case x of None \<Rightarrow> False | Some r \<Rightarrow> r \<noteq> 0)"

definition truthy_int :: "int option \<Rightarrow> bool" where
  "truthy_int x = (case x of None \<Rightarrow> False | Some i \<Rightarrow> i \<noteq> 0)"

definition truthy_str :: "string option \<Rightarrow> bool" where
  "truthy_str x = (case x of None \<Rightarrow> False | Some s \<Rightarrow> s \<noteq> [])"

definition truthy_list :: "'a list option \<Rightarrow> bool" where
  "truthy_list x = (case x of None \<Rightarrow> False | Some xs \<Rightarrow> xs \<noteq> [])"

text \<open>\<^verbatim>\<open>x or d\<close> for an optional float.\<close>

definition or_real :: "real option \<Rightarrow> real \<Rightarrow> real" where
  "or_real x d = (if truthy_real x then the x else d)"

text \<open>\<^verbatim>\<open>xs or []\<close> for an optional list.\<close>

definition or_list :: "'a list option \<Rightarrow> 'a list" where
  "or_list x = (case x of None \<Rightarrow> [] | Some xs \<Rightarrow> xs)"

text \<open>\<^verbatim>\<open>xs[:n]\<close>: a negative \<open>n\<close> counts from the end.\<close>

definition slice_to :: "int \<Rightarrow> 'a list \<Rightarrow> 'a list" where
  "slice_to n xs = (if 0 \<le> n then take (nat n) xs else take (length xs - nat (- n)) xs)"

text \<open>
  \<^verbatim>\<open>xs.sort(key=k, reverse=True)\<close>: Python's sort is stable, also with \<^verbatim>\<open>reverse=True\<close>
  (elements with equal keys keep their order). Insertion sort on the negated key does the same.
\<close>

definition sort_desc :: "('a \<Rightarrow> real) \<Rightarrow> 'a list \<Rightarrow> 'a list" where
  "sort_desc k xs = sort_key (\<lambda>x. - k x) xs"

text \<open>\<^verbatim>\<open>any(a in ys for a in xs)\<close>\<close>

definition any_in :: "'a list \<Rightarrow> 'a list \<Rightarrow> bool" where
  "any_in xs ys = list_ex (\<lambda>a. a \<in> set ys) xs"

text \<open>\<^verbatim>\<open>set(xs) & set(ys)\<close>, listed without repetition in the order of \<open>xs\<close>
  (Python leaves the iteration order of a set unspecified; only the size and the
  membership of the result are used in what follows).\<close>

definition common :: "'a list \<Rightarrow> 'a list \<Rightarrow> 'a list" where
  "common xs ys = remdups (filter (\<lambda>a. a \<in> set ys) xs)"

subsection \<open>Data model: \<^verbatim>\<open>models/user.py\<close> and \<^verbatim>\<open>models/book.py\<close>\<close>

record reading_history =
  book_id :: string
  title :: string
  authors :: "string list"
  rating :: "real option"
  read_date :: "string option"
  status :: string
  review :: "string option"
  tags :: "string list"

record user_profile =
  user_id :: string
  name :: string
  reading_history :: "reading_history list"
  favorite_genres :: "string list"
  favorite_authors :: "string list"

record book =
  title :: string
  authors :: "string list"
  year :: int
  edition_count :: int
  cover_id :: "int option"
  subjects :: "string list option"
  description :: "string option"
  work_id :: "string option"
  rating :: "real option"
  cover_url :: "string option"
  isbn :: "string option"
  publisher :: "string option"
  language :: "string option"
  page_count :: "int option"
  embedding :: "real list option"
  sentiment_score :: "real option"
  popularity_score :: "real option"

text \<open>The dataclass constructor with its defaults.\<close>

definition Book :: "string \<Rightarrow> string list \<Rightarrow> int \<Rightarrow> int \<Rightarrow> book" where
  "Book t a y e =
     \<lparr>title = t, authors = a, year = y, edition_count = e, cover_id = None, subjects = None,
      description = None, work_id = None, rating = None, cover_url = None, isbn = None,
      publisher = None, language = None, page_count = None, embedding = None,
      sentiment_score = None, popularity_score = None\<rparr>"

definition ReadingHistory :: "string \<Rightarrow> string \<Rightarrow> string list \<Rightarrow> reading_history" where
  "ReadingHistory i t a =
     \<lparr>book_id = i, reading_history.title = t, reading_history.authors = a,
      reading_history.rating = None, read_date = None, status = ''read'', review = None,
      tags = []\<rparr>"

text \<open>\<^verbatim>\<open>Book.calculate_popularity_score\<close>\<close>

definition calculate_popularity_score :: "book \<Rightarrow> real" where
  "calculate_popularity_score b =
     (let edition_score = min (real_of_int (edition_count b) / 100) 1.0;
          rating_score = or_real (rating b) 0 / 5.0
      in edition_score * 0.4 + rating_score * 0.6)"

text \<open>
  Both data providers (\<^verbatim>\<open>services/api_providers.py\<close>, the only places that construct a
  \<^verbatim>\<open>Book\<close>) finish the construction with
  \<^verbatim>\<open>book.popularity_score = book.calculate_popularity_score()\<close>.
\<close>

definition assign_popularity :: "book \<Rightarrow> book" where
  "assign_popularity b = b\<lparr>popularity_score := Some (calculate_popularity_score b)\<rparr>"

text \<open>The invariant of the data model, in the spec's words.\<close>

definition popularity_formula :: "book \<Rightarrow> real" where
  "popularity_formula b =
     min (real_of_int (edition_count b) / 100) 1 * 0.4
       + (case rating b of None \<Rightarrow> 0 | Some r \<Rightarrow> r) / 5 * 0.6"

subsection \<open>Strings\<close>

text \<open>
  Text is ASCII. \<open>lower\<close> is \<^verbatim>\<open>str.lower\<close>, \<open>is_word_char\<close> is the regex class \<^verbatim>\<open>\w\<close>
  (letters, digits and the underscore), \<open>is_space\<close> is \<^verbatim>\<open>\s\<close>.
\<close>

definition lower_char :: "char \<Rightarrow> char" where
  "lower_char c =
     (case map_of (zip ''ABCDEFGHIJKLMNOPQRSTUVWXYZ'' ''abcdefghijklmnopqrstuvwxyz'') c of
        None \<Rightarrow> c
      | Some l \<Rightarrow> l)"

definition lower :: "string \<Rightarrow> string" where
  "lower s = map lower_char s"

definition is_lower_alnum :: "char \<Rightarrow> bool" where
  "is_lower_alnum c = (c \<in> set ''abcdefghijklmnopqrstuvwxyz0123456789'')"

definition is_word_char :: "char \<Rightarrow> bool" where
  "is_word_char c =
     (c \<in> set ''abcdefghijklmnopqrstuvwxyzABCDEFGHIJKLMNOPQRSTUVWXYZ0123456789_'')"

definition is_space :: "char \<Rightarrow> bool" where
  "is_space c =
     (c \<in> set [CHR '' '', CHR 0x09, CHR 0x0A, CHR 0x0B, CHR 0x0C, CHR 0x0D,
                CHR 0x1C, CHR 0x1D, CHR 0x1E, CHR 0x1F])"

text \<open>\<^verbatim>\<open>re.findall(r'\b\w+\b', s)\<close>: the maximal runs of word characters, left to right.
  \<open>cur\<close> is the run being read.\<close>

fun findall_words :: "string \<Rightarrow> string \<Rightarrow> string list" where
  "findall_words cur [] = (if cur = [] then [] else [cur])"
| "findall_words cur (c # cs) =
     (if is_word_char c then findall_words (cur @ [c]) cs
      else (if cur = [] then [] else [cur]) @ findall_words [] cs)"

text \<open>\<^verbatim>\<open>sep.join(parts)\<close>\<close>

fun join :: "string \<Rightarrow> string list \<Rightarrow> string" where
  "join sep [] = []"
| "join sep [p] = p"
| "join sep (p # q # ps) = p @ sep @ join sep (q # ps)"

text \<open>\<^verbatim>\<open>a in b\<close> for strings: \<open>a\<close> occurs in \<open>b\<close> as a contiguous piece.\<close>

fun starts_with :: "string \<Rightarrow> string \<Rightarrow> bool" where
  "starts_with [] s = True"
| "starts_with (a # as) [] = False"
| "starts_with (a # as) (c # cs) = (a = c \<and> starts_with as cs)"

fun str_in :: "string \<Rightarrow> string \<Rightarrow> bool" where
  "str_in a [] = (a = [])"
| "str_in a (c # cs) = (starts_with a (c # cs) \<or> str_in a cs)"

subsection \<open>\<^verbatim>\<open>SentimentAnalyzer\<close>\<close>

definition POSITIVE_WORDS :: "string list" where
  "POSITIVE_WORDS =
     [''excellent'', ''amazing'', ''wonderful'', ''brilliant'', ''outstanding'', ''fantastic'',
      ''great'', ''good'', ''best'', ''love'', ''beautiful'', ''perfect'', ''incredible'',
      ''masterpiece'', ''compelling'', ''engaging'', ''captivating'', ''thrilling'',
      ''inspiring'', ''powerful'', ''moving'', ''delightful'', ''entertaining'']"

definition NEGATIVE_WORDS :: "string list" where
  "NEGATIVE_WORDS =
     [''bad'', ''terrible'', ''awful'', ''horrible'', ''poor'', ''worst'', ''disappointing'',
      ''boring'', ''dull'', ''weak'', ''confusing'', ''tedious'', ''mediocre'', ''bland'',
      ''predictable'', ''slow'', ''disappointing'', ''frustrating'']"

definition analyze :: "string \<Rightarrow> real" where
  "analyze text =
     (if text = [] then 0
      else let ws = findall_words [] (lower text);
               positive_count = length (filter (\<lambda>w. w \<in> set POSITIVE_WORDS) ws);
               negative_count = length (filter (\<lambda>w. w \<in> set NEGATIVE_WORDS) ws);
               total = positive_count + negative_count
           in if total = 0 then 0
              else (real positive_count - real negative_count) / real total)"

definition get_sentiment_label :: "real \<Rightarrow> string" where
  "get_sentiment_label s =
     (if s > 0.3 then ''Positive'' else if s < - 0.3 then ''Negative'' else ''Neutral'')"

text \<open>
  \<^verbatim>\<open>RecommendationEngine._enrich_with_sentiment\<close> assigns \<^verbatim>\<open>book.sentiment_score\<close> in
  place; the model returns the books as they are after the call.
\<close>

definition enrich_book :: "book \<Rightarrow> book" where
  "enrich_book b =
     (if truthy_str (description b) \<and> \<not> truthy_real (sentiment_score b)
      then b\<lparr>sentiment_score := Some (analyze (the (description b)))\<rparr>
      else b)"

definition enrich_with_sentiment :: "book list \<Rightarrow> book list" where
  "enrich_with_sentiment books = map enrich_book books"


subsection \<open>Recommendations\<close>

datatype reason =
    SameAuthor "string list"
  | SimilarTopics "string list"
  | ContentSimilarity real
  | RatingOutOf5 real
  | YouEnjoyed string
  | MatchScore real
  | CommunityRating real
  | PopularBookWithEditions int
  | RecommendedBy "string list"
  | PublishedIn int
  | Editions int
  | PopularChoice
  | MatchesMood string
  | Genres "string list"
  | GenresVarious
  | Sentiment string

text \<open>The entry kept per book identity by the hybrid combiner (a dict in the source).\<close>

record merged_entry =
  book :: book
  scores :: "real list"
  reasons :: "reason list"
  algorithms :: "string list"

text \<open>\<^verbatim>\<open>BookRecommendation\<close>; its \<^verbatim>\<open>__lt__\<close> compares the scores.\<close>

record recommendation =
  book :: book
  score :: real
  algorithm :: string
  reasons :: "reason list"

subsection \<open>\<^verbatim>\<open>CollaborativeFilteringRecommender\<close>: the preference matcher\<close>

text \<open>\<^verbatim>\<open>entry.rating and entry.rating >= 4.0\<close>\<close>

definition liked :: "reading_history \<Rightarrow> bool" where
  "liked e = (case reading_history.rating e of None \<Rightarrow> False | Some r \<Rightarrow> r \<noteq> 0 \<and> r \<ge> 4.0)"

definition calculate_item_similarity :: "book \<Rightarrow> reading_history \<Rightarrow> real" where
  "calculate_item_similarity b e =
     (let author_part = (if any_in (authors b) (reading_history.authors e) then 0.5 else 0);
          genre_part =
            (if truthy_list (subjects b) \<and> tags e \<noteq> []
             then (let first5 = take 5 (or_list (subjects b)); cm = common first5 (tags e)
                   in if cm \<noteq> []
                      then 0.3 * (real (length cm) / real (max (length first5) (length (tags e))))
                      else 0)
             else 0)
      in min (author_part + genre_part) 1.0)"

text \<open>The loop of \<^verbatim>\<open>_calculate_cf_score\<close> over the history, on the pair \<open>(score, count)\<close>.\<close>

fun cf_loop :: "book \<Rightarrow> reading_history list \<Rightarrow> real \<times> nat \<Rightarrow> real \<times> nat" where
  "cf_loop b [] acc = acc"
| "cf_loop b (e # es) (sc, cnt) =
     (if liked e
      then (let similarity = calculate_item_similarity b e
            in if similarity > 0
               then cf_loop b es (sc + the (reading_history.rating e) * similarity, cnt + 1)
               else cf_loop b es (sc, cnt))
      else cf_loop b es (sc, cnt))"

definition calculate_cf_score :: "book \<Rightarrow> user_profile \<Rightarrow> real" where
  "calculate_cf_score b up =
     (case cf_loop b (reading_history up) (0, 0) of
        (sc, cnt) \<Rightarrow> if cnt > 0 then (sc / real cnt) / 5.0 else 0)"

definition generate_cf_reasons :: "book \<Rightarrow> user_profile \<Rightarrow> real \<Rightarrow> reason list" where
  "generate_cf_reasons b up sc =
     (let similar_liked =
            map reading_history.title
              (filter (\<lambda>e. liked e \<and> any_in (authors b) (reading_history.authors e))
                 (reading_history up))
      in (case similar_liked of [] \<Rightarrow> [] | t # _ \<Rightarrow> [YouEnjoyed t])
         @ [MatchScore sc]
         @ (if truthy_real (rating b) then [CommunityRating (the (rating b))] else []))"

definition popularity_based_recommendations :: "book list \<Rightarrow> int \<Rightarrow> recommendation list" where
  "popularity_based_recommendations candidates top_n =
     slice_to top_n
       (sort_desc score
          (map (\<lambda>b. \<lparr>book = b, score = the (popularity_score b),
                      algorithm = ''Popularity-Based'',
                      reasons = [PopularBookWithEditions (edition_count b)]\<rparr>)
             (filter (\<lambda>b. truthy_real (popularity_score b)) candidates)))"

text \<open>
  \<^verbatim>\<open>CollaborativeFilteringRecommender.recommend\<close>. The target book is not used. The
  \<^verbatim>\<open>user_item_matrix\<close> that \<^verbatim>\<open>_build_user_item_matrix\<close> fills is never read and is left
  out. Nothing in the \<^verbatim>\<open>try\<close> block can raise on values of the declared types, so its
  \<^verbatim>\<open>except\<close> branch has no counterpart here.
\<close>

text \<open>\<^verbatim>\<open>not user_profile or not user_profile.reading_history\<close>\<close>

definition no_history :: "user_profile option \<Rightarrow> bool" where
  "no_history user = (case user of None \<Rightarrow> True | Some up \<Rightarrow> reading_history up = [])"

definition cf_recommend ::
  "book list \<Rightarrow> user_profile option \<Rightarrow> int \<Rightarrow> recommendation list" where
  "cf_recommend candidates user top_n =
     (if no_history user then popularity_based_recommendations candidates top_n
      else let up = the user
           in slice_to top_n
                (sort_desc score
                   (concat
                      (map (\<lambda>c. let sc = calculate_cf_score c up
                                 in if sc > 0
                                    then [\<lparr>book = c, score = sc,
                                           algorithm = ''Collaborative Filtering'',
                                           reasons = generate_cf_reasons c up sc\<rparr>]
                                    else [])
                         candidates))))"

subsection \<open>\<^verbatim>\<open>TFIDFRecommender\<close>: the text similarity scorer\<close>

definition get_text_representation :: "book \<Rightarrow> string" where
  "get_text_representation b =
     join '' ''
       (filter (\<lambda>p. p \<noteq> [])
          [title b, join '' '' (authors b), join '' '' (or_list (subjects b)),
           (case description b of None \<Rightarrow> [] | Some d \<Rightarrow> d)])"

definition preprocess_text :: "string \<Rightarrow> string" where
  "preprocess_text text = filter (\<lambda>c. is_lower_alnum c \<or> is_space c) (lower text)"

text \<open>
  The vectorizer and \<^verbatim>\<open>cosine_similarity\<close> come from scikit-learn, which is not part of
  the repository. They enter as a parameter: given the preprocessed texts of the target and
  of the candidates, the similarities of the target to each candidate, or \<open>None\<close> when
  scikit-learn raises (for instance on an empty vocabulary).
\<close>

type_synonym vectorizer = "string list \<Rightarrow> real list option"

definition generate_reasons :: "book \<Rightarrow> book \<Rightarrow> real \<Rightarrow> reason list" where
  "generate_reasons target candidate sc =
     (let common_authors = common (authors target) (authors candidate)
      in (if common_authors \<noteq> [] then [SameAuthor common_authors] else [])
         @ (if truthy_list (subjects target) \<and> truthy_list (subjects candidate)
            then (let common_subjects =
                        common (take 5 (or_list (subjects target)))
                               (take 5 (or_list (subjects candidate)))
                  in if common_subjects \<noteq> [] then [SimilarTopics (take 3 common_subjects)]
                     else [])
            else [])
         @ [ContentSimilarity sc]
         @ (if truthy_real (rating candidate) then [RatingOutOf5 (the (rating candidate))]
            else []))"

definition apply_user_boost :: "real \<Rightarrow> book \<Rightarrow> user_profile \<Rightarrow> real" where
  "apply_user_boost sc b up =
     (let boost1 = (if any_in (authors b) (favorite_authors up) then 1.0 * 1.3 else 1.0);
          boost2 = (if truthy_list (subjects b) \<and> any_in (or_list (subjects b)) (favorite_genres up)
                    then boost1 * 1.2 else boost1)
      in min (sc * boost2) 1.0)"

text \<open>
  The loop over \<^verbatim>\<open>enumerate(similarities)\<close>. \<^verbatim>\<open>candidates[idx]\<close> raises \<^verbatim>\<open>IndexError\<close>
  past the end of the list; \<open>None\<close> is that exception.
\<close>

fun tfidf_loop ::
  "book \<Rightarrow> book list \<Rightarrow> user_profile option \<Rightarrow> nat \<Rightarrow> real list \<Rightarrow> recommendation list option"
where
  "tfidf_loop target candidates user idx [] = Some []"
| "tfidf_loop target candidates user idx (sc # rest) =
     (if sc > 0.1
      then (if idx < length candidates
            then (let b = candidates ! idx;
                      rs = generate_reasons target b sc;
                      sc' = (case user of None \<Rightarrow> sc | Some up \<Rightarrow> apply_user_boost sc b up);
                      r = \<lparr>book = b, score = sc', algorithm = ''TF-IDF Content-Based'',
                           reasons = rs\<rparr>
                  in map_option ((#) r) (tfidf_loop target candidates user (Suc idx) rest))
            else None)
      else tfidf_loop target candidates user (Suc idx) rest)"

text \<open>\<^verbatim>\<open>TFIDFRecommender.recommend\<close>: any exception in the body ends in \<^verbatim>\<open>return []\<close>.\<close>

definition tfidf_recommend ::
  "vectorizer \<Rightarrow> book \<Rightarrow> book list \<Rightarrow> user_profile option \<Rightarrow> int \<Rightarrow> recommendation list"
where
  "tfidf_recommend vec target candidates user top_n =
     (case vec (map (\<lambda>b. preprocess_text (get_text_representation b)) (target # candidates)) of
        None \<Rightarrow> []
      | Some similarities \<Rightarrow>
          (case tfidf_loop target candidates user 0 similarities of
             None \<Rightarrow> []
           | Some recs \<Rightarrow> slice_to top_n (sort_desc score recs)))"

subsection \<open>\<^verbatim>\<open>MLRecommender\<close>: the hybrid combiner\<close>

datatype strategy = TFIDFRecommender | CollaborativeFilteringRecommender | MLRecommender

definition get_name :: "strategy \<Rightarrow> string" where
  "get_name s =
     (case s of TFIDFRecommender \<Rightarrow> ''TF-IDF Content-Based''
      | CollaborativeFilteringRecommender \<Rightarrow> ''Collaborative Filtering''
      | MLRecommender \<Rightarrow> ''Hybrid ML'')"

definition strategies :: "strategy list" where
  "strategies = [TFIDFRecommender, CollaborativeFilteringRecommender]"

definition weights :: "(string \<times> real) list" where
  "weights = [(''TF-IDF Content-Based'', 0.6), (''Collaborative Filtering'', 0.4)]"

text \<open>\<^verbatim>\<open>self.weights.get(name, 0.5)\<close>\<close>

definition weight_of :: "string \<Rightarrow> real" where
  "weight_of n = (case map_of weights n of None \<Rightarrow> 0.5 | Some w \<Rightarrow> w)"

text \<open>\<^verbatim>\<open>rec.book.work_id or rec.book.title\<close>\<close>

definition book_identity :: "book \<Rightarrow> string" where
  "book_identity b = (if truthy_str (work_id b) then the (work_id b) else title b)"

text \<open>
  \<^verbatim>\<open>all_recommendations\<close> is a dict, which keeps its keys in insertion order: an
  association list with one pair per key. The \<^verbatim>\<open>reasons\<close> of an entry are a Python set;
  they are kept as a list without repetition (Python leaves the order in which
  \<^verbatim>\<open>list(...)\<close> reads a set unspecified, and nothing below depends on it).
\<close>

definition add_rec ::
  "real \<Rightarrow> (string \<times> merged_entry) list \<Rightarrow> recommendation \<Rightarrow> (string \<times> merged_entry) list"
where
  "add_rec weight alls r =
     (let book_id = book_identity (book r);
          alls1 = (if map_of alls book_id = None
                   then alls @ [(book_id, \<lparr>merged_entry.book = book r, scores = [],
                                           merged_entry.reasons = [], algorithms = []\<rparr>)]
                   else alls)
      in map (\<lambda>(k, d). if k = book_id
                        then (k, d\<lparr>scores := scores d @ [score r * weight],
                                   merged_entry.reasons :=
                                     remdups (merged_entry.reasons d @ reasons r),
                                   algorithms := algorithms d @ [algorithm r]\<rparr>)
                        else (k, d))
           alls1)"

definition combine :: "merged_entry \<Rightarrow> recommendation" where
  "combine d =
     (let combined_score = sum_list (scores d) / real (length strategies);
          boosted = (if length (algorithms d) > 1 then combined_score * 1.2 else combined_score)
      in \<lparr>book = merged_entry.book d, score = min boosted 1.0, algorithm = ''Hybrid ML'',
          reasons = take 4 (merged_entry.reasons d) @ [RecommendedBy (algorithms d)]\<rparr>)"

text \<open>
  The merge of the two result lists, TF-IDF first. Nothing in the \<^verbatim>\<open>try\<close> block of
  \<^verbatim>\<open>MLRecommender.recommend\<close> can raise (both strategies catch their own exceptions),
  so its \<^verbatim>\<open>except\<close> branch has no counterpart here.
\<close>

definition merge_results ::
  "recommendation list \<Rightarrow> recommendation list \<Rightarrow> (string \<times> merged_entry) list" where
  "merge_results tfidf_recs cf_recs =
     foldl (add_rec (weight_of (get_name CollaborativeFilteringRecommender)))
       (foldl (add_rec (weight_of (get_name TFIDFRecommender))) [] tfidf_recs)
       cf_recs"

definition hybrid_recommend ::
  "vectorizer \<Rightarrow> book \<Rightarrow> book list \<Rightarrow> user_profile option \<Rightarrow> int \<Rightarrow> recommendation list"
where
  "hybrid_recommend vec target candidates user top_n =
     (let all_recommendations =
            merge_results (tfidf_recommend vec target candidates user (top_n * 2))
                          (cf_recommend candidates user (top_n * 2))
      in slice_to top_n (sort_desc score (map (\<lambda>(k, d). combine d) all_recommendations)))"

definition recommend ::
  "strategy \<Rightarrow> vectorizer \<Rightarrow> book \<Rightarrow> book list \<Rightarrow> user_profile option \<Rightarrow> int
   \<Rightarrow> recommendation list" where
  "recommend s vec target candidates user top_n =
     (case s of
        TFIDFRecommender \<Rightarrow> tfidf_recommend vec target candidates user top_n
      | CollaborativeFilteringRecommender \<Rightarrow> cf_recommend candidates user top_n
      | MLRecommender \<Rightarrow> hybrid_recommend vec target candidates user top_n)"


subsection \<open>\<^verbatim>\<open>RecommendationEngine\<close>\<close>

text \<open>The constructor's choice of recommender from the strategy name.\<close>

definition engine_recommender :: "string \<Rightarrow> strategy" where
  "engine_recommender s =
     (if s = ''hybrid'' then MLRecommender
      else if s = ''tfidf'' then TFIDFRecommender
      else if s = ''collaborative'' then CollaborativeFilteringRecommender
      else MLRecommender)"

text \<open>A context is a dict from option names to values.\<close>

type_synonym context_dict = "(string \<times> string) list"

definition night_boost :: "recommendation \<Rightarrow> recommendation" where
  "night_boost r =
     (if truthy_int (page_count (book r)) \<and> the (page_count (book r)) < 300
      then r\<lparr>score := score r * 1.1\<rparr> else r)"

definition apply_context_filters :: "recommendation list \<Rightarrow> context_dict \<Rightarrow> recommendation list" where
  "apply_context_filters recommendations ctx =
     (let filtered1 =
            (case map_of ctx ''time_of_day'' of
               None \<Rightarrow> recommendations
             | Some time \<Rightarrow>
                 if time = ''night'' then map night_boost recommendations else recommendations);
          filtered2 =
            (case map_of ctx ''reading_goal'' of
               None \<Rightarrow> filtered1
             | Some goal \<Rightarrow>
                 if goal = ''quick_read''
                 then filter (\<lambda>r. \<not> truthy_int (page_count (book r))
                                   \<or> the (page_count (book r)) < 400) filtered1
                 else if goal = ''deep_dive''
                 then filter (\<lambda>r. truthy_int (page_count (book r))
                                   \<and> the (page_count (book r)) > 300) filtered1
                 else filtered1)
      in sort_desc score filtered2)"

text \<open>The first pass of \<^verbatim>\<open>_ensure_diversity\<close>, on the state
  \<open>(diverse_recs, seen_authors, seen_subjects)\<close>.\<close>

fun diversity_pass ::
  "int \<Rightarrow> recommendation list \<Rightarrow> recommendation list \<Rightarrow> string list \<Rightarrow> string list
   \<Rightarrow> recommendation list" where
  "diversity_pass top_n [] diverse seen_authors seen_subjects = diverse"
| "diversity_pass top_n (r # rs) diverse seen_authors seen_subjects =
     (if int (length diverse) \<ge> top_n then diverse
      else let authors_new = \<not> any_in (authors (book r)) seen_authors;
               subjects_new =
                 (if truthy_list (subjects (book r))
                  then \<not> any_in (take 3 (or_list (subjects (book r)))) seen_subjects
                  else True)
           in if authors_new \<or> subjects_new \<or> int (length diverse) < top_n div 2
              then diversity_pass top_n rs (diverse @ [r])
                     (seen_authors @ authors (book r))
                     (if truthy_list (subjects (book r))
                      then seen_subjects @ take 3 (or_list (subjects (book r)))
                      else seen_subjects)
              else diversity_pass top_n rs diverse seen_authors seen_subjects)"

text \<open>The second pass: \<^verbatim>\<open>rec not in diverse_recs\<close> compares dataclass values.\<close>

fun fill_remaining ::
  "int \<Rightarrow> recommendation list \<Rightarrow> recommendation list \<Rightarrow> recommendation list" where
  "fill_remaining top_n [] diverse = diverse"
| "fill_remaining top_n (r # rs) diverse =
     (if r \<notin> set diverse
      then (if int (length (diverse @ [r])) \<ge> top_n then diverse @ [r]
            else fill_remaining top_n rs (diverse @ [r]))
      else fill_remaining top_n rs diverse)"

definition ensure_diversity :: "recommendation list \<Rightarrow> int \<Rightarrow> recommendation list" where
  "ensure_diversity recommendations top_n =
     (if int (length recommendations) \<le> top_n then recommendations
      else let diverse = diversity_pass top_n recommendations [] [] []
           in if int (length diverse) < top_n
              then fill_remaining top_n recommendations diverse
              else diverse)"

text \<open>
  \<^verbatim>\<open>RecommendationEngine.get_recommendations\<close>, for the engine built with strategy name
  \<open>s\<close>. The result is the returned list together with the candidates as the call leaves
  them (their \<^verbatim>\<open>sentiment_score\<close> is assigned in place). The steps of the \<^verbatim>\<open>try\<close> block
  raise nothing on values of the declared types: the one source of exceptions,
  scikit-learn, is caught inside \<open>tfidf_recommend\<close>.
\<close>

definition get_recommendations ::
  "string \<Rightarrow> vectorizer \<Rightarrow> book \<Rightarrow> book list \<Rightarrow> user_profile option \<Rightarrow> context_dict option \<Rightarrow> int
   \<Rightarrow> recommendation list \<times> book list" where
  "get_recommendations s vec target candidates user ctx top_n =
     (let candidates' = enrich_with_sentiment candidates;
          recs = recommend (engine_recommender s) vec target candidates' user (top_n * 2);
          recs1 = (case ctx of None \<Rightarrow> recs
                   | Some c \<Rightarrow> if c \<noteq> [] then apply_context_filters recs c else recs);
          recs2 = ensure_diversity recs1 top_n
      in (slice_to top_n recs2, candidates'))"

text \<open>\<^verbatim>\<open>get_mood_based_recommendations\<close>\<close>

definition mood_genres :: "(string \<times> string list) list" where
  "mood_genres =
     [(''happy'', [''comedy'', ''romance'', ''humor'', ''feel-good'']),
      (''sad'', [''drama'', ''literary fiction'', ''poetry'']),
      (''adventurous'', [''adventure'', ''action'', ''thriller'', ''fantasy'']),
      (''thoughtful'', [''philosophy'', ''non-fiction'', ''science'', ''history'']),
      (''relaxed'', [''mystery'', ''cozy'', ''light fiction'', ''travel''])]"

definition mood_score :: "string \<Rightarrow> book \<Rightarrow> real" where
  "mood_score mood b =
     (let target_genres = (case map_of mood_genres (lower mood) of None \<Rightarrow> [] | Some g \<Rightarrow> g);
          sc0 = (if truthy_list (subjects b)
                 then (let book_genres = map lower (or_list (subjects b));
                           matches = length (filter (\<lambda>genre. list_ex (str_in genre) book_genres)
                                               target_genres)
                       in if target_genres \<noteq> []
                          then real matches / real (length target_genres) else 0)
                 else 0)
      in if truthy_real (sentiment_score b)
         then (if mood = ''happy'' \<and> the (sentiment_score b) > 0 then sc0 * 1.2
               else if mood = ''sad'' \<and> the (sentiment_score b) < 0 then sc0 * 1.2
               else sc0)
         else sc0)"

definition get_mood_based_recommendations ::
  "book list \<Rightarrow> string \<Rightarrow> int \<Rightarrow> recommendation list" where
  "get_mood_based_recommendations candidates mood top_n =
     (let scored_books = filter (\<lambda>(b, sc). sc > 0) (map (\<lambda>b. (b, mood_score mood b)) candidates)
      in map (\<lambda>(b, sc).
                \<lparr>book = b, score = sc, algorithm = ''Mood-Based'',
                 reasons = [MatchesMood mood,
                            (if truthy_list (subjects b) then Genres (take 3 (or_list (subjects b)))
                             else GenresVarious),
                            Sentiment (get_sentiment_label (or_real (sentiment_score b) 0))]\<rparr>)
           (slice_to top_n (sort_desc snd scored_books)))"

text \<open>
  \<^verbatim>\<open>get_trending_recommendations\<close> sorts a list in place, and that list may be the
  caller's. List objects therefore live in a store: \<open>cells\<close> gives the content of each
  list object, \<open>next_ref\<close> is the first unused reference. A list comprehension builds a
  new list object; \<^verbatim>\<open>filtered = candidates\<close> copies the reference. The current year
  (\<^verbatim>\<open>datetime.now().year\<close>) is a parameter.
\<close>

record store =
  cells :: "nat \<Rightarrow> book list"
  next_ref :: nat

definition new_list :: "store \<Rightarrow> book list \<Rightarrow> nat \<times> store" where
  "new_list st xs = (next_ref st, st\<lparr>cells := (cells st)(next_ref st := xs),
                                      next_ref := Suc (next_ref st)\<rparr>)"

definition sort_in_place :: "store \<Rightarrow> nat \<Rightarrow> (book \<Rightarrow> real) \<Rightarrow> store" where
  "sort_in_place st r k = st\<lparr>cells := (cells st)(r := sort_desc k (cells st r))\<rparr>"

definition trending_recommendation :: "book \<Rightarrow> recommendation" where
  "trending_recommendation b =
     \<lparr>book = b, score = or_real (popularity_score b) 0.5, algorithm = ''Trending'',
      reasons = [PublishedIn (year b), Editions (edition_count b),
                 (if truthy_real (rating b) then RatingOutOf5 (the (rating b))
                  else PopularChoice)]\<rparr>"

definition get_trending_recommendations ::
  "int \<Rightarrow> store \<Rightarrow> nat \<Rightarrow> string \<Rightarrow> int \<Rightarrow> recommendation list \<times> store" where
  "get_trending_recommendations current_year st candidates time_window top_n =
     (let (filtered, st1) =
            (if time_window = ''recent''
             then new_list st (filter (\<lambda>b. year b \<noteq> 0 \<and> year b \<ge> current_year - 2)
                                 (cells st candidates))
             else if time_window = ''this_year''
             then new_list st (filter (\<lambda>b. year b = current_year) (cells st candidates))
             else if time_window = ''classic''
             then new_list st (filter (\<lambda>b. year b \<noteq> 0 \<and> year b < 2000) (cells st candidates))
             else (candidates, st));
          st2 = sort_in_place st1 filtered (\<lambda>b. or_real (popularity_score b) 0)
      in (map trending_recommendation (slice_to top_n (cells st2 filtered)), st2))"


subsection \<open>The operations with their exceptions\<close>

text \<open>
  The definitions above leave out what Python does when an operation fails. To state
  that no exception leaves a public operation, the operations are written a second time
  with every operation that can raise on values of the declared types made explicit:
  using \<^verbatim>\<open>None\<close> where a value is needed (arithmetic, comparison, iteration, slicing,
  formatting), a lookup of a missing key, a division by zero, an index past the end of a
  list, and the calls into scikit-learn. A computation is an option and \<open>None\<close> means
  that an exception was raised; \<open>do\<close> passes an exception on, as Python does, and
  \<open>try_except\<close> is \<^verbatim>\<open>try: ... except Exception: ...\<close>. The steps that contain no
  such operation (the sentiment analysis, which accepts \<^verbatim>\<open>None\<close>, the merge of the
  hybrid combiner, the sorts and the slices) are used as they are.
\<close>

text \<open>The value of an optional where Python needs a value: \<^verbatim>\<open>None\<close> raises.\<close>

definition value_of :: "'a option \<Rightarrow> 'a option" where
  "value_of x = x"

text \<open>\<^verbatim>\<open>x / y\<close>\<close>

definition truediv :: "real \<Rightarrow> real \<Rightarrow> real option" where
  "truediv x y = (if y = 0 then None else Some (x / y))"

text \<open>\<^verbatim>\<open>xs[i]\<close>\<close>

definition item :: "'a list \<Rightarrow> nat \<Rightarrow> 'a option" where
  "item xs i = (if i < length xs then Some (xs ! i) else None)"

definition try_except :: "'a option \<Rightarrow> 'a option \<Rightarrow> 'a option" where
  "try_except body handler = (case body of None \<Rightarrow> handler | Some r \<Rightarrow> Some r)"

text \<open>A loop that appends the results of its body to a list, in order.\<close>

fun for_each :: "('a \<Rightarrow> 'b list option) \<Rightarrow> 'a list \<Rightarrow> 'b list option" where
  "for_each f [] = Some []"
| "for_each f (x # xs) = do { ys \<leftarrow> f x; zs \<leftarrow> for_each f xs; Some (ys @ zs) }"

text \<open>The mood operation.\<close>

definition mood_score_exn :: "string \<Rightarrow> book \<Rightarrow> real option" where
  "mood_score_exn mood b = do {
     let target_genres = (case map_of mood_genres (lower mood) of None \<Rightarrow> [] | Some g \<Rightarrow> g);
     sc0 \<leftarrow> (if truthy_list (subjects b)
             then do {
               subs \<leftarrow> value_of (subjects b);
               let book_genres = map lower subs;
               let matches = length (filter (\<lambda>genre. list_ex (str_in genre) book_genres)
                                       target_genres);
               if target_genres \<noteq> [] then truediv (real matches) (real (length target_genres))
               else Some 0 }
             else Some 0);
     if truthy_real (sentiment_score b)
     then do {
       s \<leftarrow> value_of (sentiment_score b);
       Some (if mood = ''happy'' \<and> s > 0 then sc0 * 1.2
             else if mood = ''sad'' \<and> s < 0 then sc0 * 1.2
             else sc0) }
     else Some sc0 }"

definition get_mood_based_recommendations_exn ::
  "book list \<Rightarrow> string \<Rightarrow> int \<Rightarrow> recommendation list option" where
  "get_mood_based_recommendations_exn candidates mood top_n = do {
     scored_books \<leftarrow>
       for_each (\<lambda>b. do { sc \<leftarrow> mood_score_exn mood b;
                           Some (if sc > 0 then [(b, sc)] else []) })
         candidates;
     for_each (\<lambda>(b, sc). do {
                 genres \<leftarrow> (if truthy_list (subjects b)
                             then do { subs \<leftarrow> value_of (subjects b);
                                       Some (Genres (take 3 subs)) }
                             else Some GenresVarious);
                 Some [\<lparr>book = b, score = sc, algorithm = ''Mood-Based'',
                        reasons = [MatchesMood mood, genres,
                                   Sentiment (get_sentiment_label
                                                (or_real (sentiment_score b) 0))]\<rparr>] })
       (slice_to top_n (sort_desc snd scored_books)) }"

text \<open>The trending operation.\<close>

definition trending_recommendation_exn :: "book \<Rightarrow> recommendation option" where
  "trending_recommendation_exn b = do {
     rating_reason \<leftarrow> (if truthy_real (rating b)
                        then do { r \<leftarrow> value_of (rating b); Some (RatingOutOf5 r) }
                        else Some PopularChoice);
     Some \<lparr>book = b, score = or_real (popularity_score b) 0.5, algorithm = ''Trending'',
           reasons = [PublishedIn (year b), Editions (edition_count b), rating_reason]\<rparr> }"

definition get_trending_recommendations_exn ::
  "int \<Rightarrow> store \<Rightarrow> nat \<Rightarrow> string \<Rightarrow> int \<Rightarrow> (recommendation list \<times> store) option" where
  "get_trending_recommendations_exn current_year st candidates time_window top_n = do {
     let (filtered, st1) =
           (if time_window = ''recent''
            then new_list st (filter (\<lambda>b. year b \<noteq> 0 \<and> year b \<ge> current_year - 2)
                                (cells st candidates))
            else if time_window = ''this_year''
            then new_list st (filter (\<lambda>b. year b = current_year) (cells st candidates))
            else if time_window = ''classic''
            then new_list st (filter (\<lambda>b. year b \<noteq> 0 \<and> year b < 2000) (cells st candidates))
            else (candidates, st));
     let st2 = sort_in_place st1 filtered (\<lambda>b. or_real (popularity_score b) 0);
     recommendations \<leftarrow>
       for_each (\<lambda>b. do { r \<leftarrow> trending_recommendation_exn b; Some [r] })
         (slice_to top_n (cells st2 filtered));
     Some (recommendations, st2) }"

text \<open>The preference matcher; its \<^verbatim>\<open>except\<close> branch falls back to popularity.\<close>

definition calculate_item_similarity_exn :: "book \<Rightarrow> reading_history \<Rightarrow> real option" where
  "calculate_item_similarity_exn b e = do {
     let author_part = (if any_in (authors b) (reading_history.authors e) then 0.5 else 0);
     genre_part \<leftarrow>
       (if truthy_list (subjects b) \<and> tags e \<noteq> []
        then do {
          subs \<leftarrow> value_of (subjects b);
          let first5 = take 5 subs;
          let cm = common first5 (tags e);
          if cm \<noteq> []
          then do { fraction \<leftarrow> truediv (real (length cm))
                                   (real (max (length first5) (length (tags e))));
                    Some (0.3 * fraction) }
          else Some 0 }
        else Some 0);
     Some (min (author_part + genre_part) 1.0) }"

fun cf_loop_exn ::
  "book \<Rightarrow> reading_history list \<Rightarrow> real \<times> nat \<Rightarrow> (real \<times> nat) option" where
  "cf_loop_exn b [] acc = Some acc"
| "cf_loop_exn b (e # es) (sc, cnt) =
     (if liked e
      then do {
        r \<leftarrow> value_of (reading_history.rating e);
        similarity \<leftarrow> calculate_item_similarity_exn b e;
        if similarity > 0 then cf_loop_exn b es (sc + r * similarity, cnt + 1)
        else cf_loop_exn b es (sc, cnt) }
      else cf_loop_exn b es (sc, cnt))"

definition calculate_cf_score_exn :: "book \<Rightarrow> user_profile \<Rightarrow> real option" where
  "calculate_cf_score_exn b up = do {
     (sc, cnt) \<leftarrow> cf_loop_exn b (reading_history up) (0, 0);
     if cnt > 0 then do { mean \<leftarrow> truediv sc (real cnt); truediv mean 5.0 } else Some 0 }"

definition generate_cf_reasons_exn :: "book \<Rightarrow> user_profile \<Rightarrow> real \<Rightarrow> reason list option" where
  "generate_cf_reasons_exn b up sc = do {
     let similar_liked =
           map reading_history.title
             (filter (\<lambda>e. liked e \<and> any_in (authors b) (reading_history.authors e))
                (reading_history up));
     enjoyed \<leftarrow> (if similar_liked \<noteq> []
                  then do { t \<leftarrow> item similar_liked 0; Some [YouEnjoyed t] }
                  else Some []);
     community \<leftarrow> (if truthy_real (rating b)
                    then do { r \<leftarrow> value_of (rating b); Some [CommunityRating r] }
                    else Some []);
     Some (enjoyed @ [MatchScore sc] @ community) }"

definition popularity_based_recommendations_exn ::
  "book list \<Rightarrow> int \<Rightarrow> recommendation list option" where
  "popularity_based_recommendations_exn candidates top_n = do {
     recommendations \<leftarrow>
       for_each (\<lambda>b. if truthy_real (popularity_score b)
                      then do { p \<leftarrow> value_of (popularity_score b);
                                Some [\<lparr>book = b, score = p, algorithm = ''Popularity-Based'',
                                       reasons = [PopularBookWithEditions (edition_count b)]\<rparr>] }
                      else Some [])
         candidates;
     Some (slice_to top_n (sort_desc score recommendations)) }"

definition cf_recommend_exn ::
  "book list \<Rightarrow> user_profile option \<Rightarrow> int \<Rightarrow> recommendation list option" where
  "cf_recommend_exn candidates user top_n =
     (if no_history user then popularity_based_recommendations_exn candidates top_n
      else try_except
             (do {
                up \<leftarrow> value_of user;
                recommendations \<leftarrow>
                  for_each (\<lambda>c. do {
                              sc \<leftarrow> calculate_cf_score_exn c up;
                              if sc > 0
                              then do { rs \<leftarrow> generate_cf_reasons_exn c up sc;
                                        Some [\<lparr>book = c, score = sc,
                                               algorithm = ''Collaborative Filtering'',
                                               reasons = rs\<rparr>] }
                              else Some [] })
                    candidates;
                Some (slice_to top_n (sort_desc score recommendations)) })
             (popularity_based_recommendations_exn candidates top_n))"

text \<open>The text similarity scorer; its \<^verbatim>\<open>except\<close> branch returns the empty list.\<close>

definition generate_reasons_exn :: "book \<Rightarrow> book \<Rightarrow> real \<Rightarrow> reason list option" where
  "generate_reasons_exn target candidate sc = do {
     let common_authors = common (authors target) (authors candidate);
     let same = (if common_authors \<noteq> [] then [SameAuthor common_authors] else []);
     topics \<leftarrow>
       (if truthy_list (subjects target) \<and> truthy_list (subjects candidate)
        then do {
          ts \<leftarrow> value_of (subjects target);
          cs \<leftarrow> value_of (subjects candidate);
          let common_subjects = common (take 5 ts) (take 5 cs);
          Some (if common_subjects \<noteq> [] then [SimilarTopics (take 3 common_subjects)] else []) }
        else Some []);
     rated \<leftarrow> (if truthy_real (rating candidate)
                then do { r \<leftarrow> value_of (rating candidate); Some [RatingOutOf5 r] }
                else Some []);
     Some (same @ topics @ [ContentSimilarity sc] @ rated) }"

definition apply_user_boost_exn :: "real \<Rightarrow> book \<Rightarrow> user_profile \<Rightarrow> real option" where
  "apply_user_boost_exn sc b up = do {
     let boost1 = (if any_in (authors b) (favorite_authors up) then 1.0 * 1.3 else 1.0);
     boost2 \<leftarrow> (if truthy_list (subjects b)
                 then do { subs \<leftarrow> value_of (subjects b);
                           Some (if any_in subs (favorite_genres up) then boost1 * 1.2
                                 else boost1) }
                 else Some boost1);
     Some (min (sc * boost2) 1.0) }"

fun tfidf_loop_exn ::
  "book \<Rightarrow> book list \<Rightarrow> user_profile option \<Rightarrow> nat \<Rightarrow> real list \<Rightarrow> recommendation list option"
where
  "tfidf_loop_exn target candidates user idx [] = Some []"
| "tfidf_loop_exn target candidates user idx (sc # rest) =
     (if sc > 0.1
      then do {
        b \<leftarrow> item candidates idx;
        rs \<leftarrow> generate_reasons_exn target b sc;
        sc' \<leftarrow> (case user of None \<Rightarrow> Some sc | Some up \<Rightarrow> apply_user_boost_exn sc b up);
        recs \<leftarrow> tfidf_loop_exn target candidates user (Suc idx) rest;
        Some (\<lparr>book = b, score = sc', algorithm = ''TF-IDF Content-Based'', reasons = rs\<rparr>
              # recs) }
      else tfidf_loop_exn target candidates user (Suc idx) rest)"

definition tfidf_recommend_exn ::
  "vectorizer \<Rightarrow> book \<Rightarrow> book list \<Rightarrow> user_profile option \<Rightarrow> int
   \<Rightarrow> recommendation list option" where
  "tfidf_recommend_exn vec target candidates user top_n =
     try_except
       (do {
          similarities \<leftarrow>
            vec (map (\<lambda>b. preprocess_text (get_text_representation b)) (target # candidates));
          recommendations \<leftarrow> tfidf_loop_exn target candidates user 0 similarities;
          Some (slice_to top_n (sort_desc score recommendations)) })
       (Some [])"

text \<open>The hybrid combiner; its \<^verbatim>\<open>except\<close> branch falls back to the first strategy.\<close>

definition combine_exn :: "merged_entry \<Rightarrow> recommendation option" where
  "combine_exn d = do {
     combined_score \<leftarrow> truediv (sum_list (scores d)) (real (length strategies));
     let boosted = (if length (algorithms d) > 1 then combined_score * 1.2 else combined_score);
     Some \<lparr>book = merged_entry.book d, score = min boosted 1.0, algorithm = ''Hybrid ML'',
           reasons = take 4 (merged_entry.reasons d) @ [RecommendedBy (algorithms d)]\<rparr> }"

definition hybrid_recommend_exn ::
  "vectorizer \<Rightarrow> book \<Rightarrow> book list \<Rightarrow> user_profile option \<Rightarrow> int
   \<Rightarrow> recommendation list option" where
  "hybrid_recommend_exn vec target candidates user top_n =
     try_except
       (do {
          tfidf_recs \<leftarrow> tfidf_recommend_exn vec target candidates user (top_n * 2);
          cf_recs \<leftarrow> cf_recommend_exn candidates user (top_n * 2);
          let all_recommendations = merge_results tfidf_recs cf_recs;
          hybrid_recommendations \<leftarrow>
            for_each (\<lambda>(k, d). do { r \<leftarrow> combine_exn d; Some [r] }) all_recommendations;
          Some (slice_to top_n (sort_desc score hybrid_recommendations)) })
       (tfidf_recommend_exn vec target candidates user top_n)"

definition recommend_exn ::
  "strategy \<Rightarrow> vectorizer \<Rightarrow> book \<Rightarrow> book list \<Rightarrow> user_profile option \<Rightarrow> int
   \<Rightarrow> recommendation list option" where
  "recommend_exn s vec target candidates user top_n =
     (case s of
        TFIDFRecommender \<Rightarrow> tfidf_recommend_exn vec target candidates user top_n
      | CollaborativeFilteringRecommender \<Rightarrow> cf_recommend_exn candidates user top_n
      | MLRecommender \<Rightarrow> hybrid_recommend_exn vec target candidates user top_n)"

text \<open>The engine; the \<^verbatim>\<open>except\<close> branch of \<^verbatim>\<open>get_recommendations\<close> returns the
  empty list.\<close>

definition night_boost_exn :: "recommendation \<Rightarrow> recommendation option" where
  "night_boost_exn r =
     (if truthy_int (page_count (book r))
      then do { pages \<leftarrow> value_of (page_count (book r));
                Some (if pages < 300 then r\<lparr>score := score r * 1.1\<rparr> else r) }
      else Some r)"

definition apply_context_filters_exn ::
  "recommendation list \<Rightarrow> context_dict \<Rightarrow> recommendation list option" where
  "apply_context_filters_exn recommendations ctx = do {
     filtered1 \<leftarrow>
       (if map_of ctx ''time_of_day'' \<noteq> None
        then do {
          time \<leftarrow> value_of (map_of ctx ''time_of_day'');
          if time = ''night''
          then for_each (\<lambda>r. do { r' \<leftarrow> night_boost_exn r; Some [r'] }) recommendations
          else Some recommendations }
        else Some recommendations);
     filtered2 \<leftarrow>
       (if map_of ctx ''reading_goal'' \<noteq> None
        then do {
          goal \<leftarrow> value_of (map_of ctx ''reading_goal'');
          if goal = ''quick_read''
          then for_each
                 (\<lambda>r. do {
                    keep \<leftarrow> (if \<not> truthy_int (page_count (book r)) then Some True
                              else do { pages \<leftarrow> value_of (page_count (book r));
                                        Some (pages < 400) });
                    Some (if keep then [r] else []) })
                 filtered1
          else if goal = ''deep_dive''
          then for_each
                 (\<lambda>r. do {
                    keep \<leftarrow> (if truthy_int (page_count (book r))
                              then do { pages \<leftarrow> value_of (page_count (book r));
                                        Some (pages > 300) }
                              else Some False);
                    Some (if keep then [r] else []) })
                 filtered1
          else Some filtered1 }
        else Some filtered1);
     Some (sort_desc score filtered2) }"

fun diversity_pass_exn ::
  "int \<Rightarrow> recommendation list \<Rightarrow> recommendation list \<Rightarrow> string list \<Rightarrow> string list
   \<Rightarrow> recommendation list option" where
  "diversity_pass_exn top_n [] diverse seen_authors seen_subjects = Some diverse"
| "diversity_pass_exn top_n (r # rs) diverse seen_authors seen_subjects =
     (if int (length diverse) \<ge> top_n then Some diverse
      else do {
        let authors_new = \<not> any_in (authors (book r)) seen_authors;
        subjects_new \<leftarrow>
          (if truthy_list (subjects (book r))
           then do { subs \<leftarrow> value_of (subjects (book r));
                     Some (\<not> any_in (take 3 subs) seen_subjects) }
           else Some True);
        if authors_new \<or> subjects_new \<or> int (length diverse) < top_n div 2
        then do {
          seen_subjects' \<leftarrow>
            (if truthy_list (subjects (book r))
             then do { subs \<leftarrow> value_of (subjects (book r));
                       Some (seen_subjects @ take 3 subs) }
             else Some seen_subjects);
          diversity_pass_exn top_n rs (diverse @ [r]) (seen_authors @ authors (book r))
            seen_subjects' }
        else diversity_pass_exn top_n rs diverse seen_authors seen_subjects })"

definition ensure_diversity_exn :: "recommendation list \<Rightarrow> int \<Rightarrow> recommendation list option" where
  "ensure_diversity_exn recommendations top_n =
     (if int (length recommendations) \<le> top_n then Some recommendations
      else do {
        diverse \<leftarrow> diversity_pass_exn top_n recommendations [] [] [];
        Some (if int (length diverse) < top_n
              then fill_remaining top_n recommendations diverse
              else diverse) })"

definition get_recommendations_exn ::
  "string \<Rightarrow> vectorizer \<Rightarrow> book \<Rightarrow> book list \<Rightarrow> user_profile option \<Rightarrow> context_dict option
   \<Rightarrow> int \<Rightarrow> (recommendation list \<times> book list) option" where
  "get_recommendations_exn s vec target candidates user ctx top_n =
     (let candidates' = enrich_with_sentiment candidates
      in try_except
           (do {
              recs \<leftarrow> recommend_exn (engine_recommender s) vec target candidates' user
                        (top_n * 2);
              recs1 \<leftarrow> (case ctx of None \<Rightarrow> Some recs
                         | Some c \<Rightarrow> if c \<noteq> [] then apply_context_filters_exn recs c
                                      else Some recs);
              recs2 \<leftarrow> ensure_diversity_exn recs1 top_n;
              Some (slice_to top_n recs2, candidates') })
           (Some ([], candidates')))"

subsection \<open>The specification's formulas\<close>

text \<open>
  The preference matcher as the specification words it: the per-entry similarity, and
  the score as an average over the qualifying history entries.
\<close>

definition similarity_spec :: "book \<Rightarrow> reading_history \<Rightarrow> real" where
  "similarity_spec b e =
     (let first5 = take 5 (or_list (subjects b));
          overlap = card (set first5 \<inter> set (tags e))
      in min ((if set (authors b) \<inter> set (reading_history.authors e) \<noteq> {} then 0.5 else 0)
              + 0.3 * (real overlap / real (max (length first5) (length (tags e)))))
             1)"

definition rated_at_least_4 :: "reading_history \<Rightarrow> bool" where
  "rated_at_least_4 e = (case reading_history.rating e of None \<Rightarrow> False | Some r \<Rightarrow> r \<ge> 4)"

definition preference_score_spec :: "book \<Rightarrow> user_profile \<Rightarrow> real" where
  "preference_score_spec b up =
     (let qualifying = filter (\<lambda>e. rated_at_least_4 e \<and> similarity_spec b e > 0)
                         (reading_history up);
          count = length qualifying
      in if count > 0
         then (\<Sum>e\<leftarrow>qualifying. the (reading_history.rating e) * similarity_spec b e)
                / real count / 5
         else 0)"

text \<open>
  The similarity as C3 words it, with the sizes of the two sets (the numbers of distinct
  subjects and of distinct tags) in place of the lengths of the two lists.
\<close>

definition similarity_by_set_sizes :: "book \<Rightarrow> reading_history \<Rightarrow> real" where
  "similarity_by_set_sizes b e =
     (let first5 = take 5 (or_list (subjects b));
          overlap = card (set first5 \<inter> set (tags e))
      in min ((if set (authors b) \<inter> set (reading_history.authors e) \<noteq> {} then 0.5 else 0)
              + 0.3 * (real overlap / real (max (card (set first5)) (card (set (tags e))))))
             1)"

text \<open>No rating of the history is above 5, the upper end of the data model's range.\<close>

definition ratings_at_most_5 :: "user_profile \<Rightarrow> bool" where
  "ratings_at_most_5 up =
     list_all (\<lambda>e. case reading_history.rating e of None \<Rightarrow> True | Some r \<Rightarrow> r \<le> 5)
       (reading_history up)"

text \<open>The time windows of the trending operation, with the guard on the unknown year 0.\<close>

definition in_time_window :: "int \<Rightarrow> string \<Rightarrow> int \<Rightarrow> bool" where
  "in_time_window current_year time_window y =
     (if time_window = ''recent'' then y \<noteq> 0 \<and> y \<ge> current_year - 2
      else if time_window = ''this_year'' then y = current_year
      else if time_window = ''classic'' then y \<noteq> 0 \<and> y < 2000
      else True)"

subsection \<open>Concrete inputs\<close>

text \<open>A vectorizer that raises, and one that finds every candidate equally similar.\<close>

definition failing_vectorizer :: vectorizer where
  "failing_vectorizer texts = None"

definition constant_similarity :: "real \<Rightarrow> vectorizer" where
  "constant_similarity x texts = Some (replicate (length texts - 1) x)"

text \<open>The target of the specification's scenario.\<close>

definition scenario_target :: book where
  "scenario_target = (Book ''Zzqx__'' [] 0 0)\<lparr>subjects := Some []\<rparr>"

definition feel_good_book :: book where
  "feel_good_book =
     (Book ''Funny'' [''A''] 2020 1)
       \<lparr>subjects := Some [''comedy'', ''romance'', ''humor'', ''feel-good''],
        sentiment_score := Some 0.5\<rparr>"

definition short_bestseller :: book where
  "short_bestseller =
     assign_popularity
       ((Book ''Short'' [''A''] 2020 100)\<lparr>rating := Some 5, page_count := Some 200\<rparr>)"

definition plain_book :: book where
  "plain_book = (Book ''Story'' [''A''] 2001 3)\<lparr>description := Some ''a plain story''\<rparr>"

text \<open>A book as a provider builds it, with one author, one subject and a number of editions.\<close>

definition shelf_book :: "string \<Rightarrow> string \<Rightarrow> string \<Rightarrow> int \<Rightarrow> int \<Rightarrow> book" where
  "shelf_book t a s y e = assign_popularity ((Book t [a] y e)\<lparr>subjects := Some [s]\<rparr>)"

text \<open>Two editions of one title, neither with a work id, as a provider builds them.\<close>

definition edition_of :: "int \<Rightarrow> book" where
  "edition_of y = assign_popularity (Book ''Dune Messiah'' [''Frank Herbert''] y 0)"

text \<open>A book with a given popularity score, as in the specification's scenarios.\<close>

definition scored_book :: "string \<Rightarrow> int \<Rightarrow> real \<Rightarrow> book" where
  "scored_book t y p = (Book t [''A''] y 7)\<lparr>popularity_score := Some p\<rparr>"

definition new_user :: user_profile where
  "new_user = \<lparr>user_id = ''u1'', name = ''User'', reading_history = [],
               favorite_genres = [], favorite_authors = []\<rparr>"

definition reader :: user_profile where
  "reader =
     \<lparr>user_id = ''u2'', name = ''User'',
      reading_history =
        [(ReadingHistory ''OL7W'' ''Dune'' [''Frank Herbert''])
           \<lparr>reading_history.rating := Some 5, tags := [''science fiction'', ''desert'']\<rparr>,
         (ReadingHistory ''OL8W'' ''Emma'' [''Jane Austen''])
           \<lparr>reading_history.rating := Some 3\<rparr>],
      favorite_genres = [''science fiction'', ''desert''],
      favorite_authors = [''Frank Herbert'']\<rparr>"

definition sequel :: book where
  "sequel = (Book ''Dune Messiah'' [''Frank Herbert''] 1969 40)
              \<lparr>subjects := Some [''science fiction'', ''politics'']\<rparr>"

text \<open>A book that lists one subject twice, a history entry with one tag, and a reader
  whose one rating is 10.\<close>

definition repeated_subjects_book :: book where
  "repeated_subjects_book =
     (Book ''Saga'' [''B''] 2010 5)\<lparr>subjects := Some [''epic'', ''epic'', ''saga'']\<rparr>"

definition epic_entry :: reading_history where
  "epic_entry = (ReadingHistory ''OL9W'' ''Epic'' [''C''])
                  \<lparr>reading_history.rating := Some 5, tags := [''epic'']\<rparr>"

definition generous_reader :: user_profile where
  "generous_reader =
     \<lparr>user_id = ''u3'', name = ''User'',
      reading_history =
        [(ReadingHistory ''OL7W'' ''Dune'' [''Frank Herbert''])
           \<lparr>reading_history.rating := Some 10, tags := [''science fiction'', ''politics'']\<rparr>],
      favorite_genres = [''science fiction'', ''politics''],
      favorite_authors = [''Frank Herbert'']\<rparr>"

definition unscored_book :: book where
  "unscored_book = Book ''Unscored'' [''A''] 1999 12"

definition undated_book :: book where
  "undated_book = Book ''Undated'' [''A''] 0 3"

text \<open>A target and a candidate whose preprocessed text is empty.\<close>

definition textless_target :: book where
  "textless_target = Book ''!!!'' [] 0 0"

definition textless_candidate :: book where
  "textless_candidate = assign_popularity ((Book ''???'' [] 2001 100)\<lparr>rating := Some 5\<rparr>)"

definition store_of :: "book list \<Rightarrow> store" where
  "store_of xs = \<lparr>cells = (\<lambda>_. [])(0 := xs), next_ref = 1\<rparr>"


section \<open>Theorems\<close>

subsection \<open>Evaluation and helper lemmas\<close>

lemmas py_defs = truthy_real_def truthy_int_def truthy_str_def truthy_list_def or_real_def
  or_list_def slice_to_def sort_desc_def any_in_def common_def

lemmas book_defs = Book_def assign_popularity_def calculate_popularity_score_def

lemmas sentiment_defs = analyze_def lower_def lower_char_def is_word_char_def
  POSITIVE_WORDS_def NEGATIVE_WORDS_def enrich_with_sentiment_def enrich_book_def

lemmas engine_defs = get_recommendations_def engine_recommender_def recommend_def
  cf_recommend_def no_history_def popularity_based_recommendations_def
  apply_context_filters_def night_boost_def ensure_diversity_def

lemma insort_key_map: "insort_key f (g x) (map g xs) = map g (insort_key (\<lambda>y. f (g y)) x xs)"
  by (induction xs) simp_all

lemma sort_key_map: "sort_key f (map g xs) = map g (sort_key (\<lambda>y. f (g y)) xs)"
  by (induction xs) (simp_all add: insort_key_map)

lemma sort_desc_map: "sort_desc k (map g xs) = map g (sort_desc (\<lambda>y. k (g y)) xs)"
  by (simp add: sort_desc_def sort_key_map)

lemma sorted_sort_desc: "sorted_wrt (\<lambda>a b. k a \<ge> k b) (sort_desc k xs)"
proof -
  have "sorted (map (\<lambda>x. - k x) (sort_key (\<lambda>x. - k x) xs))" by (rule sorted_sort_key)
  then show ?thesis by (simp add: sort_desc_def sorted_map)
qed

lemma sort_desc_scores: "sorted_wrt (\<ge>) (map k (sort_desc k xs))"
  using sorted_sort_desc[of k xs] by (simp add: sorted_wrt_map)

lemma map_slice_to: "map f (slice_to n xs) = slice_to n (map f xs)"
  by (simp add: slice_to_def take_map)

lemma sorted_wrt_slice_to: "sorted_wrt P xs \<Longrightarrow> sorted_wrt P (slice_to n xs)"
  by (auto simp: slice_to_def intro: sorted_wrt_take)

lemma set_slice_to: "set (slice_to n xs) \<subseteq> set xs"
  by (auto simp: slice_to_def dest: in_set_takeD)

lemma slice_to_Nil: "slice_to n [] = []"
  by (simp add: slice_to_def)

lemma sort_desc_Nil: "sort_desc k [] = []"
  by (simp add: sort_desc_def)

lemma set_sort_desc: "set (sort_desc k xs) = set xs"
  by (simp add: sort_desc_def)

subsection \<open>The popularity score\<close>

text \<open>
  C9, as the claim states it, fails: nothing makes the \<open>popularity_score\<close> field of a
  book follow the formula. A book built with the constructor's defaults has no
  popularity score, while the formula gives 0.048 for its 12 editions; and a book built
  with the popularity score 0.9 and 7 editions keeps 0.9, while the formula gives 0.028.
\<close>

theorem popularity_field_unconstrained:
  "popularity_score unscored_book \<noteq> Some (popularity_formula unscored_book) \<and>
   popularity_score unscored_book = None \<and> popularity_formula unscored_book = 6 / 125 \<and>
   popularity_score (scored_book ''P'' 2001 0.9) = Some (9 / 10) \<and>
   popularity_formula (scored_book ''P'' 2001 0.9) = 7 / 250"
  by (simp add: unscored_book_def scored_book_def Book_def popularity_formula_def)

text \<open>
  C9, amended. For every book the computed popularity score is
  \<open>min (edition_count / 100) 1 * 0.4 + (rating or 0) / 5 * 0.6\<close>. The
  \<open>popularity_score\<close> field holds that value once it is assigned from the computed
  score, as both data providers do when they build a book: the assignment changes that
  field only, to the formula's value for the book.
\<close>

theorem popularity_score_formula:
  "calculate_popularity_score b = popularity_formula b \<and>
   assign_popularity b = b\<lparr>popularity_score := Some (popularity_formula b)\<rparr>"
  by (cases "rating b")
     (simp_all add: calculate_popularity_score_def popularity_formula_def assign_popularity_def
        or_real_def truthy_real_def Let_def)

subsection \<open>The preference matcher\<close>

lemma common_card: "length (common xs ys) = card (set xs \<inter> set ys)"
proof -
  have "set (filter (\<lambda>a. a \<in> set ys) xs) = set xs \<inter> set ys" by auto
  then show ?thesis unfolding common_def by (metis length_remdups_card_conv)
qed

lemma any_in_iff: "any_in xs ys \<longleftrightarrow> set xs \<inter> set ys \<noteq> {}"
  by (auto simp: any_in_def list_ex_iff)

lemma common_empty_iff: "common xs ys = [] \<longleftrightarrow> set xs \<inter> set ys = {}"
  by (auto simp: common_def filter_empty_conv)

lemma item_similarity_spec: "calculate_item_similarity b e = similarity_spec b e"
proof (cases "truthy_list (subjects b) \<and> tags e \<noteq> []
              \<and> common (take 5 (or_list (subjects b))) (tags e) \<noteq> []")
  case True
  then show ?thesis
    by (simp add: calculate_item_similarity_def similarity_spec_def Let_def any_in_iff common_card)
next
  case False
  then have "card (set (take 5 (or_list (subjects b))) \<inter> set (tags e)) = 0"
    by (cases "subjects b") (auto simp: truthy_list_def or_list_def common_empty_iff)
  with False show ?thesis
    by (auto simp add: calculate_item_similarity_def similarity_spec_def Let_def any_in_iff)
qed

lemma liked_iff: "liked e \<longleftrightarrow> rated_at_least_4 e"
  by (auto simp: liked_def rated_at_least_4_def split: option.splits)

text \<open>The loop adds, to the pair it starts from, the sum and the number of the
  qualifying entries.\<close>

lemma cf_loop_sum:
  "cf_loop b es (s, c) =
     (s + (\<Sum>e\<leftarrow>filter (\<lambda>e. liked e \<and> calculate_item_similarity b e > 0) es.
              the (reading_history.rating e) * calculate_item_similarity b e),
      c + length (filter (\<lambda>e. liked e \<and> calculate_item_similarity b e > 0) es))"
  by (induction es arbitrary: s c) (simp_all add: Let_def)

lemma cf_score_spec: "calculate_cf_score b up = preference_score_spec b up"
  by (simp add: calculate_cf_score_def preference_score_spec_def cf_loop_sum Let_def
        liked_iff item_similarity_spec)

lemma similarity_le_1: "similarity_spec b e \<le> 1"
  by (simp add: similarity_spec_def Let_def)

lemma sum_list_bounds:
  fixes f :: "'a \<Rightarrow> real"
  assumes "\<And>x. x \<in> set xs \<Longrightarrow> 0 \<le> f x \<and> f x \<le> c"
  shows "0 \<le> sum_list (map f xs) \<and> sum_list (map f xs) \<le> c * real (length xs)"
  using assms by (induction xs) (auto simp: algebra_simps intro: add_mono)

lemma qualifying_term:
  assumes "rated_at_least_4 e" "similarity_spec b e > 0"
  shows "0 \<le> the (reading_history.rating e) * similarity_spec b e"
proof -
  from assms(1) obtain r where "reading_history.rating e = Some r" "4 \<le> r"
    by (auto simp: rated_at_least_4_def split: option.splits)
  with assms(2) show ?thesis by simp
qed

lemma preference_score_nonneg: "0 \<le> preference_score_spec b up"
proof -
  define q where
    "q = filter (\<lambda>e. rated_at_least_4 e \<and> similarity_spec b e > 0) (reading_history up)"
  have "0 \<le> (\<Sum>e\<leftarrow>q. the (reading_history.rating e) * similarity_spec b e)"
    by (rule sum_list_nonneg) (auto simp: q_def qualifying_term)
  then show ?thesis
    unfolding preference_score_spec_def Let_def q_def[symmetric] by simp
qed

lemma preference_score_le_1:
  assumes "ratings_at_most_5 up"
  shows "preference_score_spec b up \<le> 1"
proof -
  define q where
    "q = filter (\<lambda>e. rated_at_least_4 e \<and> similarity_spec b e > 0) (reading_history up)"
  have each: "0 \<le> the (reading_history.rating e) * similarity_spec b e \<and>
              the (reading_history.rating e) * similarity_spec b e \<le> 5" if "e \<in> set q" for e
  proof -
    from that have e: "e \<in> set (reading_history up)" "rated_at_least_4 e"
      "similarity_spec b e > 0"
      by (auto simp: q_def)
    then obtain r where r: "reading_history.rating e = Some r" "4 \<le> r"
      by (auto simp: rated_at_least_4_def split: option.splits)
    with e(1) assms have "r \<le> 5" by (auto simp: ratings_at_most_5_def list_all_iff)
    have "r * similarity_spec b e \<le> 5 * 1"
      using \<open>r \<le> 5\<close> r(2) similarity_le_1[of b e] e(3) by (intro mult_mono) auto
    moreover have "0 \<le> r * similarity_spec b e" using r(2) e(3) by simp
    ultimately show ?thesis using r by simp
  qed
  have b: "(\<Sum>e\<leftarrow>q. the (reading_history.rating e) * similarity_spec b e) \<le> 5 * real (length q)"
    using sum_list_bounds[of q "\<lambda>e. the (reading_history.rating e) * similarity_spec b e" 5] each
    by auto
  show ?thesis
  proof (cases "length q > 0")
    case True
    then have "real (length q) > 0" by simp
    with b show ?thesis
      unfolding preference_score_spec_def Let_def q_def[symmetric]
      by (simp add: True divide_simps)
  next
    case False
    then show ?thesis unfolding preference_score_spec_def Let_def q_def[symmetric] by simp
  qed
qed

text \<open>
  C3, as the claim states it, fails twice. The overlap is divided by the larger of the
  two list lengths, not of the two set sizes: for the subjects epic, epic, saga and the
  one tag epic the similarity is 0.3 * 1/3 = 0.1, where the set sizes give 0.3 * 1/2.
  And the score is not always at most 1, since nothing bounds a rating: one entry rated
  10 with similarity 0.8 gives the score 1.6.
\<close>

theorem preference_matcher_not_as_claimed:
  "calculate_item_similarity repeated_subjects_book epic_entry = 1 / 10 \<and>
   similarity_by_set_sizes repeated_subjects_book epic_entry = 3 / 20 \<and>
   calculate_cf_score sequel generous_reader = 8 / 5"
proof -
  have "calculate_item_similarity repeated_subjects_book epic_entry = 1 / 10"
    by (simp add: calculate_item_similarity_def repeated_subjects_book_def epic_entry_def
          ReadingHistory_def Book_def py_defs Let_def)
  moreover have "similarity_by_set_sizes repeated_subjects_book epic_entry = 3 / 20"
    by (simp add: similarity_by_set_sizes_def repeated_subjects_book_def epic_entry_def
          ReadingHistory_def Book_def py_defs Let_def card_insert_if)
  moreover have "calculate_cf_score sequel generous_reader = 8 / 5"
    by (simp add: calculate_cf_score_def calculate_item_similarity_def liked_def
          generous_reader_def sequel_def ReadingHistory_def Book_def py_defs Let_def)
  ultimately show ?thesis by simp
qed

text \<open>
  C3, amended. For every candidate book and every user profile, the similarity that the
  preference matcher computes for a history entry is 0.5 if an author overlaps, plus 0.3
  times the number of common elements of the candidate's first five subjects and the
  entry's tags divided by the larger of the two list lengths, capped at 1; its score is the
  sum of rating times similarity over the entries rated at least 4 with positive
  similarity, divided by their number and by 5, and 0 when there is no such entry. The
  score is never negative, and it is at most 1 when no rating of the history is above 5.
\<close>

theorem preference_matcher_score:
  "calculate_item_similarity b e = similarity_spec b e \<and>
   calculate_cf_score b up = preference_score_spec b up \<and>
   0 \<le> calculate_cf_score b up \<and>
   (ratings_at_most_5 up \<longrightarrow> calculate_cf_score b up \<le> 1)"
  using preference_score_le_1[of up b] preference_score_nonneg[of b up]
  by (simp add: item_similarity_spec cf_score_spec)

theorem preference_matcher_score_witness:
  "ratings_at_most_5 reader \<and> preference_score_spec sequel reader = 13 / 20 \<and>
   0 \<le> calculate_cf_score sequel reader \<and> calculate_cf_score sequel reader \<le> 1"
proof -
  have h: "ratings_at_most_5 reader"
    by (simp add: ratings_at_most_5_def reader_def ReadingHistory_def)
  have v: "calculate_cf_score sequel reader = 13 / 20"
    by (simp add: calculate_cf_score_def calculate_item_similarity_def liked_def reader_def
          sequel_def ReadingHistory_def Book_def py_defs Let_def)
  from preference_matcher_score[of sequel _ reader] h v show ?thesis by simp
qed

subsection \<open>The fallback to popularity\<close>

lemma popularity_books:
  "map book (popularity_based_recommendations cs n) =
     slice_to n (sort_desc (\<lambda>b. the (popularity_score b))
       (filter (\<lambda>b. truthy_real (popularity_score b)) cs))"
  by (simp add: popularity_based_recommendations_def map_slice_to sort_desc_map o_def)

lemma popularity_sorted: "sorted_wrt (\<ge>) (map score (popularity_based_recommendations cs n))"
  unfolding popularity_based_recommendations_def
  by (simp add: map_slice_to sorted_wrt_slice_to sort_desc_scores)

lemma popularity_labels:
  "list_all (\<lambda>r. algorithm r = ''Popularity-Based'' \<and>
                 reasons r = [PopularBookWithEditions (edition_count (book r))] \<and>
                 popularity_score (book r) = Some (score r))
     (popularity_based_recommendations cs n)"
proof -
  define mk where "mk = (\<lambda>b. \<lparr>book = b, score = the (popularity_score b),
                      algorithm = ''Popularity-Based'',
                      reasons = [PopularBookWithEditions (edition_count b)]\<rparr>)"
  have ok: "algorithm (mk b) = ''Popularity-Based'' \<and>
        reasons (mk b) = [PopularBookWithEditions (edition_count (book (mk b)))] \<and>
        popularity_score (book (mk b)) = Some (score (mk b))"
    if "truthy_real (popularity_score b)" for b
    using that by (cases "popularity_score b") (simp_all add: mk_def truthy_real_def)
  have "algorithm r = ''Popularity-Based'' \<and>
        reasons r = [PopularBookWithEditions (edition_count (book r))] \<and>
        popularity_score (book r) = Some (score r)"
    if "r \<in> set (popularity_based_recommendations cs n)" for r
  proof -
    have "set (popularity_based_recommendations cs n)
            \<subseteq> set (sort_desc score (map mk (filter (\<lambda>b. truthy_real (popularity_score b)) cs)))"
      unfolding popularity_based_recommendations_def mk_def by (rule set_slice_to)
    with that have "r \<in> mk ` {b \<in> set cs. truthy_real (popularity_score b)}"
      by (auto simp: set_sort_desc)
    then obtain b where "truthy_real (popularity_score b)" "r = mk b" by auto
    with ok show ?thesis by blast
  qed
  then show ?thesis by (simp add: list_all_iff)
qed

text \<open>
  C4, as the claim states it, fails: a candidate whose \<open>popularity_score\<close> is not set
  (or is 0) is left out of the fallback's result.
\<close>

theorem popularity_fallback_drops_unscored:
  "no_history None \<and> cf_recommend [unscored_book] None 10 = []"
  by (simp add: cf_recommend_def no_history_def popularity_based_recommendations_def
        unscored_book_def Book_def py_defs)

text \<open>
  C4, amended. When the user profile is absent or has no reading history, the preference
  matcher returns the candidates whose \<open>popularity_score\<close> is set and not 0, ranked by
  \<open>popularity_score\<close> descending and cut to the first \<open>top_n\<close>, each with its popularity
  as score, the algorithm name Popularity-Based and one reason citing the edition count;
  three candidates with popularity 0.9, 0.5 and 0.2 are returned in that order.
\<close>

theorem popularity_fallback:
  "(no_history user \<longrightarrow>
      map book (cf_recommend cs user n) =
        slice_to n (sort_desc (\<lambda>b. the (popularity_score b))
          (filter (\<lambda>b. truthy_real (popularity_score b)) cs)) \<and>
      sorted_wrt (\<ge>) (map score (cf_recommend cs user n)) \<and>
      list_all (\<lambda>r. algorithm r = ''Popularity-Based'' \<and>
                 reasons r = [PopularBookWithEditions (edition_count (book r))] \<and>
                 popularity_score (book r) = Some (score r))
        (cf_recommend cs user n)) \<and>
   map (\<lambda>r. (title (book r), score r, algorithm r))
     (cf_recommend
        [scored_book ''P'' 2001 0.9, scored_book ''Q'' 2002 0.5, scored_book ''R'' 2003 0.2]
        (Some new_user) 10)
     = [(''P'', 0.9, ''Popularity-Based''), (''Q'', 0.5, ''Popularity-Based''),
        (''R'', 0.2, ''Popularity-Based'')]"
proof -
  have "map (\<lambda>r. (title (book r), score r, algorithm r))
     (cf_recommend
        [scored_book ''P'' 2001 0.9, scored_book ''Q'' 2002 0.5, scored_book ''R'' 2003 0.2]
        (Some new_user) 10)
     = [(''P'', 0.9, ''Popularity-Based''), (''Q'', 0.5, ''Popularity-Based''),
        (''R'', 0.2, ''Popularity-Based'')]"
    by (simp add: cf_recommend_def no_history_def new_user_def
          popularity_based_recommendations_def scored_book_def Book_def py_defs)
  then show ?thesis
    by (simp add: cf_recommend_def popularity_books popularity_sorted popularity_labels)
qed

theorem popularity_fallback_witness:
  "no_history None \<and>
   map (\<lambda>r. title (book r))
     (cf_recommend [scored_book ''Q'' 2002 0.5, unscored_book,
                    scored_book ''R'' 2003 0.2, scored_book ''P'' 2001 0.9] None 2)
     = [''P'', ''Q'']"
proof -
  have h: "no_history None" by (simp add: no_history_def)
  from popularity_fallback[of None "[scored_book ''Q'' 2002 0.5, unscored_book,
                    scored_book ''R'' 2003 0.2, scored_book ''P'' 2001 0.9]" 2] h
  have "map book (cf_recommend [scored_book ''Q'' 2002 0.5, unscored_book,
                    scored_book ''R'' 2003 0.2, scored_book ''P'' 2001 0.9] None 2) =
        slice_to 2 (sort_desc (\<lambda>b. the (popularity_score b))
          (filter (\<lambda>b. truthy_real (popularity_score b))
             [scored_book ''Q'' 2002 0.5, unscored_book,
              scored_book ''R'' 2003 0.2, scored_book ''P'' 2001 0.9]))" by blast
  then have "map title (map book (cf_recommend [scored_book ''Q'' 2002 0.5, unscored_book,
                    scored_book ''R'' 2003 0.2, scored_book ''P'' 2001 0.9] None 2))
             = [''P'', ''Q'']"
    by (simp add: scored_book_def unscored_book_def Book_def py_defs)
  with h show ?thesis by (simp add: o_def)
qed

subsection \<open>Scores above 1\<close>

text \<open>The user boost of the TF-IDF strategy and the hybrid boost are clamped.\<close>

lemma apply_user_boost_le_1: "apply_user_boost sc b up \<le> 1"
  by (simp add: apply_user_boost_def Let_def)

lemma combine_le_1: "score (combine d) \<le> 1"
  by (simp add: combine_def Let_def)

text \<open>
  C2 asks that no recommendation has a score above 1 after a boost. The mood boost and
  the night-time boost multiply without a clamp: a book matching all four genres of the
  mood happy, with a positive sentiment, is returned with score 1.2, and a book of
  popularity 1 with fewer than 300 pages is returned at night with score 1.1.
\<close>

theorem boosts_exceed_one:
  "map score (get_mood_based_recommendations [feel_good_book] ''happy'' 10) = [6 / 5] \<and>
   map score (fst (get_recommendations ''collaborative'' failing_vectorizer scenario_target
      [short_bestseller] None (Some [(''time_of_day'', ''night'')]) 10)) = [11 / 10]"
  by (simp add: get_mood_based_recommendations_def mood_score_def feel_good_book_def
        mood_genres_def short_bestseller_def scenario_target_def
        py_defs book_defs sentiment_defs engine_defs Let_def)

subsection \<open>Memoization of the sentiment score\<close>

lemma snd_get_recommendations:
  "snd (get_recommendations s vec target candidates user ctx top_n)
     = enrich_with_sentiment candidates"
  by (simp add: get_recommendations_def Let_def)

text \<open>A score that is set and not 0 is kept.\<close>

lemma enrich_book_keeps_nonzero: "truthy_real (sentiment_score b) \<Longrightarrow> enrich_book b = b"
  by (simp add: enrich_book_def)

text \<open>
  C5 asks that a sentiment score, once set, is never recomputed. A score set to 0 is
  recomputed: the first call sets the score of a book with a neutral description to 0;
  after the description has changed, the second call replaces the score by 1.
\<close>

theorem sentiment_zero_is_recomputed:
  "snd (get_recommendations ''hybrid'' failing_vectorizer scenario_target [plain_book]
          None None 10)
     = [plain_book\<lparr>sentiment_score := Some 0\<rparr>] \<and>
   snd (get_recommendations ''hybrid'' failing_vectorizer scenario_target
          [plain_book\<lparr>sentiment_score := Some 0, description := Some ''an excellent story''\<rparr>]
          None None 10)
     = [plain_book\<lparr>sentiment_score := Some 1, description := Some ''an excellent story''\<rparr>]"
  by (simp add: snd_get_recommendations plain_book_def py_defs book_defs sentiment_defs Let_def)

subsection \<open>Order of the returned lists\<close>

text \<open>
  C7 asks that every returned list is non-increasing in score. The second pass of the
  diversity step appends the skipped books after the admitted ones: of four books with
  popularity 0.36, 0.32, 0.28 and 0.24, the first three by one author on one subject, the
  three returned have the scores 0.36, 0.24, 0.32. The trending operation sorts by
  \<open>popularity_score or 0\<close> and scores by \<open>popularity_score or 0.5\<close>: a book of popularity
  0.3 is returned before a book of popularity 0, whose score is 0.5.
\<close>

theorem returned_lists_not_sorted:
  "map (\<lambda>r. (title (book r), score r))
     (fst (get_recommendations ''collaborative'' failing_vectorizer scenario_target
        [shelf_book ''A'' ''X'' ''s'' 2001 90, shelf_book ''B'' ''X'' ''s'' 2001 80,
         shelf_book ''C'' ''X'' ''s'' 2001 70, shelf_book ''D'' ''Y'' ''t'' 2001 60]
        None None 3))
     = [(''A'', 9 / 25), (''D'', 6 / 25), (''B'', 8 / 25)] \<and>
   map (\<lambda>r. (title (book r), score r))
     (fst (get_trending_recommendations 2026
        (store_of [shelf_book ''A'' ''X'' ''s'' 2001 75, shelf_book ''B'' ''Y'' ''t'' 2001 0])
        0 ''all'' 10))
     = [(''A'', 3 / 10), (''B'', 1 / 2)]"
  by (simp add: shelf_book_def scenario_target_def store_of_def get_trending_recommendations_def
        sort_in_place_def new_list_def trending_recommendation_def
        py_defs book_defs sentiment_defs engine_defs Let_def)

subsection \<open>The hybrid combiner\<close>

text \<open>The score of a merged entry, and the merge of one result of each strategy.\<close>

lemma combine_score:
  "score (combine d) =
     min (sum_list (scores d) / 2 * (if length (algorithms d) > 1 then 1.2 else 1)) 1"
  by (simp add: combine_def strategies_def Let_def)

lemma merge_same_identity:
  "book_identity (book r1) = book_identity (book r2) \<Longrightarrow>
   map (\<lambda>(k, d). score (combine d)) (merge_results [r1] [r2])
     = [min ((score r1 * 0.6 + score r2 * 0.4) / 2 * 1.2) 1]"
  by (simp add: merge_results_def add_rec_def combine_def strategies_def weight_of_def
        weights_def get_name_def Let_def)

lemma merge_other_identity:
  "book_identity (book r1) \<noteq> book_identity (book r2) \<Longrightarrow>
   map (\<lambda>(k, d). score (combine d)) (merge_results [r1] [r2])
     = [min (score r1 * 0.6 / 2) 1, min (score r2 * 0.4 / 2) 1]"
  by (simp add: merge_results_def add_rec_def combine_def strategies_def weight_of_def
        weights_def get_name_def Let_def)

text \<open>
  C1 asks for the further factor 1.2 when more than one strategy emitted the book. The
  combiner counts the merged results, not the strategies: two editions of one title
  without work id are one book identity; only the TF-IDF strategy emits them (similarity
  0.5 each, the popularity path skips their popularity 0), and the merged book gets
  (0.3 + 0.3) / 2 * 1.2 = 0.36 instead of 0.3, recommended by TF-IDF and TF-IDF.
\<close>

theorem hybrid_boost_counts_results:
  "book_identity (edition_of 1969) = book_identity (edition_of 1987) \<and>
   cf_recommend [edition_of 1969, edition_of 1987] None 20 = [] \<and>
   map (\<lambda>r. (year (book r), score r, last (reasons r)))
     (hybrid_recommend (constant_similarity 0.5) (Book ''Dune'' [''Frank Herbert''] 1965 0)
        [edition_of 1969, edition_of 1987] None 10)
     = [(1969, 9 / 25, RecommendedBy [''TF-IDF Content-Based'', ''TF-IDF Content-Based''])]"
  by (simp add: hybrid_recommend_def merge_results_def add_rec_def combine_def weight_of_def
        weights_def get_name_def strategies_def book_identity_def tfidf_recommend_def
        constant_similarity_def generate_reasons_def edition_of_def cf_recommend_def
        no_history_def popularity_based_recommendations_def py_defs book_defs Let_def)

subsection \<open>The trending operation\<close>

lemma trending_books:
  "map book (fst (get_trending_recommendations cy st r w n)) =
     slice_to n (sort_desc (\<lambda>b. or_real (popularity_score b) 0)
       (filter (\<lambda>b. in_time_window cy w (year b)) (cells st r)))"
  by (simp add: get_trending_recommendations_def in_time_window_def new_list_def
        sort_in_place_def Let_def map_slice_to[symmetric] trending_recommendation_def o_def)

lemma trending_labels:
  "list_all (\<lambda>x. algorithm x = ''Trending'') (fst (get_trending_recommendations cy st r w n))"
  by (simp add: get_trending_recommendations_def new_list_def
        sort_in_place_def Let_def list_all_iff trending_recommendation_def split: prod.splits)

text \<open>
  C6, as the claim states it, fails: with the window classic, a candidate of year 0 (the
  unknown year) is below 2000 and is not kept.
\<close>

theorem trending_classic_drops_year_0:
  "year undated_book < 2000 \<and>
   fst (get_trending_recommendations 2026 (store_of [undated_book]) 0 ''classic'' 10) = []"
  by (simp add: get_trending_recommendations_def new_list_def sort_in_place_def store_of_def
         undated_book_def Book_def trending_recommendation_def py_defs Let_def)

text \<open>
  C6, amended. The trending operation keeps the candidates whose year is in the time
  window: recent, the year is not 0 and at least the current year minus 2; this_year,
  the year is the current year; classic, the year is not 0 and below 2000; any other
  window, every candidate. It returns the first \<open>top_n\<close> of them in the order of
  \<open>popularity_score or 0\<close> descending, each with the algorithm name Trending. With the
  window classic, of a candidate of 2023 and one of 1950 only that of 1950 is returned.
\<close>

theorem trending_filter_and_order:
  "map book (fst (get_trending_recommendations cy st r w n)) =
     slice_to n (sort_desc (\<lambda>b. or_real (popularity_score b) 0)
       (filter (\<lambda>b. in_time_window cy w (year b)) (cells st r))) \<and>
   list_all (\<lambda>x. algorithm x = ''Trending'') (fst (get_trending_recommendations cy st r w n)) \<and>
   map (\<lambda>x. (year (book x), algorithm x))
     (fst (get_trending_recommendations cy
        (store_of [scored_book ''New'' 2023 0.9, scored_book ''Old'' 1950 0.5]) 0 ''classic'' 10))
     = [(1950, ''Trending'')]"
proof -
  have "map (\<lambda>x. (year (book x), algorithm x))
     (fst (get_trending_recommendations cy
        (store_of [scored_book ''New'' 2023 0.9, scored_book ''Old'' 1950 0.5]) 0 ''classic'' 10))
     = [(1950, ''Trending'')]"
    by (simp add: get_trending_recommendations_def new_list_def sort_in_place_def store_of_def
         scored_book_def Book_def trending_recommendation_def py_defs Let_def)
  then show ?thesis by (simp add: trending_books trending_labels)
qed

text \<open>
  C10. The list of candidates is a list object of the caller (a reference below
  \<open>next_ref\<close>). After the call that object is sorted by \<open>popularity_score or 0\<close>
  descending when the time window is none of recent, this_year and classic, and it is
  what it was before the call for these three windows.
\<close>

theorem trending_sorts_callers_list:
  "r < next_ref st \<Longrightarrow>
   cells (snd (get_trending_recommendations cy st r w n)) r =
     (if w = ''recent'' \<or> w = ''this_year'' \<or> w = ''classic'' then cells st r
      else sort_desc (\<lambda>b. or_real (popularity_score b) 0) (cells st r))"
  by (simp add: get_trending_recommendations_def new_list_def sort_in_place_def Let_def)

theorem trending_sorts_callers_list_witness:
  "(0::nat) < next_ref (store_of [scored_book ''Q'' 2002 0.5, scored_book ''P'' 2001 0.9]) \<and>
   map title (cells (snd (get_trending_recommendations 2026
      (store_of [scored_book ''Q'' 2002 0.5, scored_book ''P'' 2001 0.9]) 0 ''all'' 10)) 0)
     = [''P'', ''Q''] \<and>
   map title (cells (snd (get_trending_recommendations 2026
      (store_of [scored_book ''Q'' 2002 0.5, scored_book ''P'' 2001 0.9]) 0 ''recent'' 10)) 0)
     = [''Q'', ''P'']"
proof -
  have h: "(0::nat) < next_ref (store_of [scored_book ''Q'' 2002 0.5, scored_book ''P'' 2001 0.9])"
    by (simp add: store_of_def)
  show ?thesis
    using h trending_sorts_callers_list[OF h, of 2026 "''all''" 10]
      trending_sorts_callers_list[OF h, of 2026 "''recent''" 10]
    by (simp add: store_of_def scored_book_def Book_def py_defs)
qed

subsection \<open>Empty candidate lists and vectorizer failures\<close>

lemma tfidf_loop_no_candidates:
  "tfidf_loop t [] u i sims = None \<or> tfidf_loop t [] u i sims = Some []"
  by (induction sims arbitrary: i) simp_all

lemma tfidf_recommend_no_candidates: "tfidf_recommend vec t [] u n = []"
proof (cases "vec [preprocess_text (get_text_representation t)]")
  case None
  then show ?thesis by (simp add: tfidf_recommend_def)
next
  case (Some sims)
  with tfidf_loop_no_candidates[of t u 0 sims] show ?thesis
    by (auto simp: tfidf_recommend_def slice_to_Nil sort_desc_Nil)
qed

lemma cf_recommend_no_candidates: "cf_recommend [] u n = []"
  by (simp add: cf_recommend_def popularity_based_recommendations_def slice_to_Nil sort_desc_Nil)

lemma hybrid_recommend_no_candidates: "hybrid_recommend vec t [] u n = []"
  by (simp add: hybrid_recommend_def merge_results_def tfidf_recommend_no_candidates
        cf_recommend_no_candidates slice_to_Nil sort_desc_Nil)

lemma recommend_no_candidates: "recommend s vec t [] u n = []"
  by (cases s) (simp_all add: recommend_def tfidf_recommend_no_candidates
        cf_recommend_no_candidates hybrid_recommend_no_candidates)

lemma apply_context_filters_Nil: "apply_context_filters [] c = []"
  by (simp add: apply_context_filters_def sort_desc_Nil split: option.splits)

lemma ensure_diversity_Nil: "ensure_diversity [] n = []"
  by (simp add: ensure_diversity_def)

lemma finish_Nil:
  "recs = [] \<Longrightarrow>
   slice_to n (ensure_diversity
     (case c of None \<Rightarrow> recs
      | Some d \<Rightarrow> if d \<noteq> [] then apply_context_filters recs d else recs) n) = []"
  by (cases c) (simp_all add: apply_context_filters_Nil ensure_diversity_Nil slice_to_Nil)

lemma get_recommendations_no_candidates:
  "get_recommendations s vec t [] u c n = ([], [])"
  by (simp add: get_recommendations_def enrich_with_sentiment_def recommend_no_candidates
        finish_Nil Let_def)

lemma text_enrich_book: "get_text_representation (enrich_book b) = get_text_representation b"
  by (simp add: get_text_representation_def enrich_book_def)

lemma texts_enriched:
  "map (\<lambda>b. preprocess_text (get_text_representation b)) (enrich_with_sentiment cs)
     = map (\<lambda>b. preprocess_text (get_text_representation b)) cs"
  by (simp add: enrich_with_sentiment_def text_enrich_book o_def)

lemma tfidf_recommend_failure:
  "vec (map (\<lambda>b. preprocess_text (get_text_representation b)) (t # cs)) = None
   \<Longrightarrow> tfidf_recommend vec t cs u n = []"
  by (simp add: tfidf_recommend_def)

lemma get_recommendations_tfidf_failure:
  assumes "vec (map (\<lambda>b. preprocess_text (get_text_representation b)) (t # cs)) = None"
  shows "fst (get_recommendations ''tfidf'' vec t cs u c n) = []"
proof -
  from assms
  have "vec (map (\<lambda>b. preprocess_text (get_text_representation b)) (t # enrich_with_sentiment cs)) = None"
    using texts_enriched[of cs] by simp
  then have "tfidf_recommend vec t (enrich_with_sentiment cs) u (n * 2) = []"
    by (simp add: tfidf_recommend_def)
  then show ?thesis
    by (simp add: get_recommendations_def engine_recommender_def recommend_def finish_Nil Let_def)
qed

lemma hybrid_recommend_failure:
  assumes "vec (map (\<lambda>b. preprocess_text (get_text_representation b)) (t # cs)) = None"
  shows "hybrid_recommend vec t cs u n =
           slice_to n (sort_desc score
             (map (\<lambda>(k, d). combine d) (merge_results [] (cf_recommend cs u (n * 2)))))"
  using assms by (simp add: hybrid_recommend_def tfidf_recommend_def)

lemma textless_target_text: "preprocess_text (get_text_representation textless_target) = []"
  by (simp add: textless_target_def preprocess_text_def get_text_representation_def
        is_lower_alnum_def is_space_def lower_def lower_char_def Book_def py_defs)

lemma enrich_textless_candidate: "enrich_with_sentiment [textless_candidate] = [textless_candidate]"
  by (simp add: textless_candidate_def sentiment_defs book_defs py_defs)

lemma tfidf_recommend_failing: "tfidf_recommend failing_vectorizer t cs u n = []"
  by (simp add: tfidf_recommend_def failing_vectorizer_def)

lemma hybrid_textless: "map (\<lambda>r. (title (book r), score r))
     (hybrid_recommend failing_vectorizer textless_target [textless_candidate] None 20)
   = [(''???'', 1 / 5)]"
  by (simp add: tfidf_recommend_failing textless_candidate_def 
        hybrid_recommend_def merge_results_def add_rec_def combine_def weight_of_def
        weights_def get_name_def strategies_def book_identity_def cf_recommend_def no_history_def
        popularity_based_recommendations_def py_defs book_defs Let_def)

lemma finish_short: "length rs \<le> 1 \<Longrightarrow> slice_to 10 (ensure_diversity rs 10) = rs"
  by (simp add: ensure_diversity_def slice_to_def)

lemma hybrid_textless_length: "length (hybrid_recommend failing_vectorizer textless_target [textless_candidate] None 20) \<le> 1"
  using arg_cong[OF hybrid_textless, of length] by simp


lemma get_recommendations_hybrid_failure:
  assumes "vec (map (\<lambda>b. preprocess_text (get_text_representation b)) (t # cs)) = None"
  shows "fst (get_recommendations ''hybrid'' vec t cs u c n) =
           (let recs = slice_to (n * 2) (sort_desc score
                         (map (\<lambda>(k, d). combine d)
                            (merge_results []
                               (cf_recommend (enrich_with_sentiment cs) u (n * 2 * 2)))));
                recs1 = (case c of None \<Rightarrow> recs
                         | Some d \<Rightarrow> if d \<noteq> [] then apply_context_filters recs d else recs)
            in slice_to n (ensure_diversity recs1 n))"
proof -
  from assms
  have "vec (map (\<lambda>b. preprocess_text (get_text_representation b))
               (t # enrich_with_sentiment cs)) = None"
    using texts_enriched[of cs] by simp
  then have "tfidf_recommend vec t (enrich_with_sentiment cs) u (n * 2 * 2) = []"
    by (simp add: tfidf_recommend_def)
  then have h: "hybrid_recommend vec t (enrich_with_sentiment cs) u (n * 2) =
      slice_to (n * 2) (sort_desc score
         (map (\<lambda>(k, d). combine d)
            (merge_results [] (cf_recommend (enrich_with_sentiment cs) u (n * 2 * 2)))))"
    by (simp add: hybrid_recommend_def)
  show ?thesis
    by (cases c)
       (simp_all add: get_recommendations_def engine_recommender_def recommend_def h Let_def)
qed

subsection \<open>No exception leaves a public operation\<close>

text \<open>
  Each operation written with its exceptions returns, on every input, the result of the
  operation as defined before: no guard is missing, and no handler is ever entered except
  that of the text similarity scorer.
\<close>

lemma value_of_list: "truthy_list x \<Longrightarrow> value_of x = Some (or_list x)"
  by (cases x) (simp_all add: value_of_def truthy_list_def or_list_def)

lemma value_of_real: "truthy_real x \<Longrightarrow> value_of x = Some (the x)"
  by (cases x) (simp_all add: value_of_def truthy_real_def)

lemma value_of_int: "truthy_int x \<Longrightarrow> value_of x = Some (the x)"
  by (cases x) (simp_all add: value_of_def truthy_int_def)

lemma truediv_Some: "y \<noteq> 0 \<Longrightarrow> truediv x y = Some (x / y)"
  by (simp add: truediv_def)

lemma for_each_Some:
  "(\<And>x. x \<in> set xs \<Longrightarrow> f x = Some (g x)) \<Longrightarrow> for_each f xs = Some (concat (map g xs))"
  by (induction xs) simp_all

lemma concat_singletons: "concat (map (\<lambda>x. [h x]) xs) = map h xs"
  by (induction xs) simp_all

lemma concat_filter: "concat (map (\<lambda>x. if P x then [h x] else []) xs) = map h (filter P xs)"
  by (induction xs) simp_all

lemma mood_score_exn_returns: "mood_score_exn mood b = Some (mood_score mood b)"
  by (simp add: mood_score_exn_def mood_score_def value_of_list value_of_real truediv_Some Let_def)

lemma get_mood_based_recommendations_exn_returns:
  "get_mood_based_recommendations_exn cs mood n = Some (get_mood_based_recommendations cs mood n)"
proof -
  have a: "for_each (\<lambda>b. do { sc \<leftarrow> mood_score_exn mood b;
                           Some (if sc > 0 then [(b, sc)] else []) }) cs
        = Some (filter (\<lambda>(b, sc). sc > 0) (map (\<lambda>b. (b, mood_score mood b)) cs))"
    by (subst for_each_Some[where g = "\<lambda>b. if mood_score mood b > 0 then [(b, mood_score mood b)] else []"])
       (simp_all add: mood_score_exn_returns concat_filter filter_map o_def)
  show ?thesis
    unfolding get_mood_based_recommendations_exn_def get_mood_based_recommendations_def a Let_def
    by (simp, subst for_each_Some[where g = "\<lambda>(b, sc). [\<lparr>book = b, score = sc, algorithm = ''Mood-Based'',
                 reasons = [MatchesMood mood,
                            (if truthy_list (subjects b) then Genres (take 3 (or_list (subjects b)))
                             else GenresVarious),
                            Sentiment (get_sentiment_label (or_real (sentiment_score b) 0))]\<rparr>]"])
       (auto simp: value_of_list concat_singletons split_def)
qed

lemma trending_recommendation_exn_returns:
  "trending_recommendation_exn b = Some (trending_recommendation b)"
  by (simp add: trending_recommendation_exn_def trending_recommendation_def value_of_real)

lemma for_each_map:
  "(\<And>x. x \<in> set xs \<Longrightarrow> f x = Some [h x]) \<Longrightarrow> for_each f xs = Some (map h xs)"
  using for_each_Some[of xs f "\<lambda>x. [h x]"] by (simp add: concat_singletons)

lemma get_trending_recommendations_exn_returns:
  "get_trending_recommendations_exn cy st r w n = Some (get_trending_recommendations cy st r w n)"
  unfolding get_trending_recommendations_exn_def get_trending_recommendations_def Let_def
  by (simp add: for_each_map[where h = trending_recommendation] trending_recommendation_exn_returns
        split: prod.splits)

lemma liked_rating: "liked e \<Longrightarrow> value_of (reading_history.rating e) = Some (the (reading_history.rating e))"
  by (cases "reading_history.rating e") (simp_all add: liked_def value_of_def)

lemma calculate_item_similarity_exn_returns:
  "calculate_item_similarity_exn b e = Some (calculate_item_similarity b e)"
proof (cases "truthy_list (subjects b) \<and> tags e \<noteq> []")
  case True
  then have v: "value_of (subjects b) = Some (or_list (subjects b))"
    by (simp add: value_of_list)
  from True have "real (max (length (take 5 (or_list (subjects b)))) (length (tags e))) \<noteq> 0"
    by simp
  then have d: "truediv x (real (max (length (take 5 (or_list (subjects b)))) (length (tags e))))
        = Some (x / real (max (length (take 5 (or_list (subjects b)))) (length (tags e))))" for x
    by (rule truediv_Some)
  show ?thesis
    unfolding calculate_item_similarity_exn_def calculate_item_similarity_def Let_def
    using True by (simp only: v d if_True bind.bind_lunit) simp
next
  case False
  then show ?thesis
    unfolding calculate_item_similarity_exn_def calculate_item_similarity_def Let_def
    by (simp only: if_False bind.bind_lunit)
qed

lemma cf_loop_exn_returns: "cf_loop_exn b es acc = Some (cf_loop b es acc)"
  by (induction b es acc rule: cf_loop.induct)
     (simp_all add: liked_rating calculate_item_similarity_exn_returns Let_def)

lemma calculate_cf_score_exn_returns: "calculate_cf_score_exn b up = Some (calculate_cf_score b up)"
  by (simp add: calculate_cf_score_exn_def calculate_cf_score_def cf_loop_exn_returns truediv_Some
        split: prod.splits)

lemma item_0: "xs \<noteq> [] \<Longrightarrow> item xs 0 = Some (hd xs)"
  by (cases xs) (simp_all add: item_def)

lemma generate_cf_reasons_exn_returns:
  "generate_cf_reasons_exn b up sc = Some (generate_cf_reasons b up sc)"
  by (simp add: generate_cf_reasons_exn_def generate_cf_reasons_def item_0 value_of_real Let_def
        split: list.splits)

lemma popularity_based_recommendations_exn_returns:
  "popularity_based_recommendations_exn cs n = Some (popularity_based_recommendations cs n)"
  unfolding popularity_based_recommendations_exn_def popularity_based_recommendations_def
  by (subst for_each_Some[where g = "\<lambda>b. if truthy_real (popularity_score b)
          then [\<lparr>book = b, score = the (popularity_score b), algorithm = ''Popularity-Based'',
                 reasons = [PopularBookWithEditions (edition_count b)]\<rparr>] else []"])
     (simp_all add: value_of_real concat_filter)

lemma value_of_user: "\<not> no_history user \<Longrightarrow> value_of user = Some (the user)"
  by (cases user) (simp_all add: no_history_def value_of_def)

lemma cf_recommend_exn_returns: "cf_recommend_exn cs user n = Some (cf_recommend cs user n)"
proof (cases "no_history user")
  case True
  then show ?thesis
    by (simp add: cf_recommend_exn_def cf_recommend_def popularity_based_recommendations_exn_returns)
next
  case False
  have "for_each (\<lambda>c. do {
                              sc \<leftarrow> calculate_cf_score_exn c (the user);
                              if sc > 0
                              then do { rs \<leftarrow> generate_cf_reasons_exn c (the user) sc;
                                        Some [\<lparr>book = c, score = sc,
                                               algorithm = ''Collaborative Filtering'',
                                               reasons = rs\<rparr>] }
                              else Some [] }) cs
        = Some (concat (map (\<lambda>c. let sc = calculate_cf_score c (the user)
                                 in if sc > 0
                                    then [\<lparr>book = c, score = sc,
                                           algorithm = ''Collaborative Filtering'',
                                           reasons = generate_cf_reasons c (the user) sc\<rparr>]
                                    else []) cs))"
    by (rule for_each_Some) (simp add: calculate_cf_score_exn_returns generate_cf_reasons_exn_returns Let_def)
  with False show ?thesis
    by (simp add: cf_recommend_exn_def cf_recommend_def value_of_user try_except_def Let_def)
qed

lemma generate_reasons_exn_returns:
  "generate_reasons_exn target candidate sc = Some (generate_reasons target candidate sc)"
  by (simp add: generate_reasons_exn_def generate_reasons_def value_of_list value_of_real Let_def)

lemma apply_user_boost_exn_returns: "apply_user_boost_exn sc b up = Some (apply_user_boost sc b up)"
  by (simp add: apply_user_boost_exn_def apply_user_boost_def value_of_list Let_def)

lemma bind_Some_map: "Option.bind x (\<lambda>y. Some (f y)) = map_option f x"
  by (cases x) simp_all

lemma tfidf_loop_exn_returns:
  "tfidf_loop_exn target cs user idx sims = tfidf_loop target cs user idx sims"
proof (induction sims arbitrary: idx)
  case Nil
  then show ?case by simp
next
  case (Cons sc rest)
  show ?case
  proof (cases "sc > 0.1 \<and> idx < length cs")
    case True
    then show ?thesis
      by (simp add: Cons.IH item_def generate_reasons_exn_returns apply_user_boost_exn_returns Let_def
            bind_Some_map split: option.splits)
  next
    case False
    then show ?thesis by (auto simp: Cons.IH item_def)
  qed
qed

lemma tfidf_recommend_exn_returns:
  "tfidf_recommend_exn vec target cs user n = Some (tfidf_recommend vec target cs user n)"
  by (simp add: tfidf_recommend_exn_def tfidf_recommend_def try_except_def tfidf_loop_exn_returns
        split: option.splits bind_splits)

lemma combine_exn_returns: "combine_exn d = Some (combine d)"
  by (simp add: combine_exn_def combine_def truediv_Some strategies_def Let_def)

lemma hybrid_recommend_exn_returns:
  "hybrid_recommend_exn vec target cs user n = Some (hybrid_recommend vec target cs user n)"
proof -
  have "for_each (\<lambda>(k, d). do { r \<leftarrow> combine_exn d; Some [r] }) alls
          = Some (map (\<lambda>(k, d). combine d) alls)" for alls :: "(string \<times> merged_entry) list"
    by (rule for_each_map) (auto simp: combine_exn_returns)
  then show ?thesis
    by (simp add: hybrid_recommend_exn_def hybrid_recommend_def try_except_def
          tfidf_recommend_exn_returns cf_recommend_exn_returns Let_def)
qed

lemma recommend_exn_returns: "recommend_exn s vec target cs user n = Some (recommend s vec target cs user n)"
  by (cases s)
     (simp_all add: recommend_exn_def recommend_def tfidf_recommend_exn_returns cf_recommend_exn_returns
        hybrid_recommend_exn_returns)

lemma night_boost_exn_returns: "night_boost_exn r = Some (night_boost r)"
  by (simp add: night_boost_exn_def night_boost_def value_of_int)

lemma value_of_Some: "value_of (Some x) = Some x"
  by (simp add: value_of_def)

lemma keep_quick:
  "(if \<not> truthy_int pc then Some True else do { pages \<leftarrow> value_of pc; Some (pages < 400) })
     = Some (\<not> truthy_int pc \<or> the pc < 400)"
  by (simp add: value_of_int)

lemma keep_deep:
  "(if truthy_int pc then do { pages \<leftarrow> value_of pc; Some (pages > 300) } else Some False)
     = Some (truthy_int pc \<and> the pc > 300)"
  by (simp add: value_of_int)

lemma for_each_filter:
  "for_each (\<lambda>r. Some (if P r then [r] else [])) xs = Some (filter P xs)"
  using for_each_Some[of xs "\<lambda>r. Some (if P r then [r] else [])" "\<lambda>r. if P r then [r] else []"]
    concat_filter[of P "\<lambda>x. x" xs]
  by simp

lemma apply_context_filters_exn_returns:
  "apply_context_filters_exn recs ctx = Some (apply_context_filters recs ctx)"
proof -
  have n: "for_each (\<lambda>r. do { r' \<leftarrow> night_boost_exn r; Some [r'] }) xs = Some (map night_boost xs)"
    for xs
    by (rule for_each_map) (simp add: night_boost_exn_returns)
  show ?thesis
    unfolding apply_context_filters_exn_def apply_context_filters_def Let_def
    by (cases "map_of ctx ''time_of_day''"; cases "map_of ctx ''reading_goal''")
       (simp_all add: value_of_Some n keep_quick keep_deep for_each_filter)
qed

lemma diversity_pass_exn_returns:
  "diversity_pass_exn n rs d sa ss = Some (diversity_pass n rs d sa ss)"
proof (induction rs arbitrary: d sa ss)
  case Nil
  show ?case by simp
next
  case (Cons r rs)
  show ?case
    by (cases "truthy_list (subjects (book r))")
       (simp_all add: Cons.IH value_of_list Let_def)
qed

lemma ensure_diversity_exn_returns: "ensure_diversity_exn rs n = Some (ensure_diversity rs n)"
  by (simp add: ensure_diversity_exn_def ensure_diversity_def diversity_pass_exn_returns Let_def)

lemma get_recommendations_exn_returns:
  "get_recommendations_exn s vec t cs u c n = Some (get_recommendations s vec t cs u c n)"
  by (cases c)
     (simp_all add: get_recommendations_exn_def get_recommendations_def try_except_def
        recommend_exn_returns apply_context_filters_exn_returns ensure_diversity_exn_returns Let_def)

text \<open>
  C8, as the claim states it, fails: for a target without usable text the hybrid engine
  still returns what the popularity path yields, here with a vectorizer that raises on
  the empty vocabulary of the two texts.
\<close>

theorem textless_target_still_recommends:
  "preprocess_text (get_text_representation textless_target) = [] \<and>
   map (\<lambda>r. (title (book r), score r))
     (fst (get_recommendations ''hybrid'' failing_vectorizer textless_target [textless_candidate]
        None None 10)) = [(''???'', 1 / 5)]"
  by (simp add: textless_target_text enrich_textless_candidate hybrid_textless
        finish_short[OF hybrid_textless_length] get_recommendations_def engine_recommender_def
        recommend_def Let_def)

text \<open>
  C8, amended. No public operation of the engine raises an exception: on every input,
  \<open>get_recommendations\<close>, \<open>get_trending_recommendations\<close> and
  \<open>get_mood_based_recommendations\<close> return a result. For an empty candidate list
  \<open>get_recommendations\<close> returns the empty list, whatever the target (as in the scenario
  with the target titled Zzqx__). When the vectorizer raises, the TF-IDF strategy returns
  the empty list, so the engine built on it alone returns the empty list; the hybrid
  combiner then merges the results of the preference matcher or popularity path with an
  empty TF-IDF result, and the hybrid engine returns that merge after the context and
  diversity steps.
\<close>

theorem no_failure_propagates:
  "get_recommendations_exn s vec t cs u c n = Some (get_recommendations s vec t cs u c n) \<and>
   get_trending_recommendations_exn cy st r w n
     = Some (get_trending_recommendations cy st r w n) \<and>
   get_mood_based_recommendations_exn cs mood n
     = Some (get_mood_based_recommendations cs mood n) \<and>
   get_recommendations s vec t [] u c n = ([], []) \<and>
   fst (get_recommendations s vec scenario_target [] None None 10) = [] \<and>
   (vec (map (\<lambda>b. preprocess_text (get_text_representation b)) (t # cs)) = None \<longrightarrow>
      tfidf_recommend vec t cs u n = [] \<and>
      fst (get_recommendations ''tfidf'' vec t cs u c n) = [] \<and>
      hybrid_recommend vec t cs u n =
        slice_to n (sort_desc score
          (map (\<lambda>(k, d). combine d) (merge_results [] (cf_recommend cs u (n * 2))))) \<and>
      fst (get_recommendations ''hybrid'' vec t cs u c n) =
        (let recs = slice_to (n * 2) (sort_desc score
                      (map (\<lambda>(k, d). combine d)
                         (merge_results []
                            (cf_recommend (enrich_with_sentiment cs) u (n * 2 * 2)))));
             recs1 = (case c of None \<Rightarrow> recs
                      | Some d \<Rightarrow> if d \<noteq> [] then apply_context_filters recs d else recs)
         in slice_to n (ensure_diversity recs1 n)))"
  using tfidf_recommend_failure[of vec t cs u n]
    get_recommendations_tfidf_failure[of vec t cs u c n]
    hybrid_recommend_failure[of vec t cs u n]
    get_recommendations_hybrid_failure[of vec t cs u c n]
  by (simp add: get_recommendations_no_candidates get_recommendations_exn_returns
        get_trending_recommendations_exn_returns get_mood_based_recommendations_exn_returns)

theorem no_failure_propagates_witness:
  "failing_vectorizer (map (\<lambda>b. preprocess_text (get_text_representation b))
      (textless_target # [textless_candidate])) = None \<and>
   tfidf_recommend failing_vectorizer textless_target [textless_candidate] None 10 = [] \<and>
   fst (get_recommendations ''tfidf'' failing_vectorizer textless_target [textless_candidate]
          None None 10) = []"
proof -
  have h: "failing_vectorizer (map (\<lambda>b. preprocess_text (get_text_representation b))
      (textless_target # [textless_candidate])) = None"
    by (simp add: failing_vectorizer_def)
  from no_failure_propagates[where vec = failing_vectorizer and t = textless_target
            and cs = "[textless_candidate]" and u = None and n = 10 and c = None] h
  show ?thesis by blast
qed

end
